theory Spec2Isabelle
  imports Complex_Main "HOL-Library.Char_ord" "HOL-Library.List_Lexorder"
    "HOL-Library.Option_ord" "HOL-Library.Product_Lexorder"
begin

section \<open>The options-flow dashboard (Dashboard.py)\<close>

text \<open>
  The dashboard reads option trades from a store, looks prices up at a market-data
  provider and aggregates premium per ticker and per expiration date. This theory embeds
  the routines of \<^verbatim>\<open>Dashboard.py\<close> that carry that logic: \<^verbatim>\<open>get_market_cap_st\<close>,
  \<^verbatim>\<open>get_current_price\<close>, \<^verbatim>\<open>fetch_options_activity_for_range\<close>,
  \<^verbatim>\<open>analyze_ticker_dashboard\<close> and \<^verbatim>\<open>create_expiration_summary_table\<close>.

  Conventions of the embedding.
  \<^item> A pandas DataFrame is a \<open>frame\<close>: the list of its column names and the list of its
    rows. A frame object lives in a heap (a list of frames, addressed by index), so that
    an in-place operation (\<^verbatim>\<open>inplace=True\<close>, \<^verbatim>\<open>df[col] = ...\<close>) is a write at an address
    and \<^verbatim>\<open>.copy()\<close> is an allocation.
  \<^item> Amounts of money (\<^verbatim>\<open>premium_usd\<close>, \<^verbatim>\<open>market_cap_ingested\<close>) are exact rationals;
    \<open>None\<close> is pandas' missing value (NaN / None). The code adds \<^verbatim>\<open>float64\<close> values; the
    rounding of each of its sums is not part of the model, and no theorem below equates
    two sums that the code rounds separately.
  \<^item> A string is a list of characters with code points below 256. \<^verbatim>\<open>str.strip\<close> removes
    Python's white space in that range: 9..13, 28..32, 133 and 160. \<^verbatim>\<open>str.upper\<close> maps
    a..z to A..Z and leaves the other characters. The code compares an upper-cased string
    only with the words \<open>NAN\<close>, \<open>BULLISH\<close>, \<open>BEARISH\<close>, \<open>CALL\<close> and \<open>PUT\<close>. Of the
    characters below 256 other than a..z, Python maps one to letters A..Z: the sharp s
    (223) becomes \<open>SS\<close>, which none of the five words contains; so the comparisons come
    out as in Python.
  \<^item> numpy's \<^verbatim>\<open>argsort\<close>, which pandas' \<^verbatim>\<open>sort_values\<close> calls with the default
    \<^verbatim>\<open>quicksort\<close>, is an input of the ticker analysis: the order it gives to equal keys
    is its own.
  \<^item> The market-data provider (yfinance) and the clock are inputs: every request and
    every sleep is appended to a trace, and the provider's answer may depend on the whole
    trace so far. A Python exception of the provider is the reply \<open>Raised\<close>.
  \<^item> The Streamlit cache decorators (\<^verbatim>\<open>st.cache_data\<close>) are not modelled: the
    definitions are the function bodies.
\<close>

subsection \<open>Strings\<close>

definition is_space :: "char \<Rightarrow> bool" where
  "is_space c = ((of_char c :: nat) \<in> {9, 10, 11, 12, 13, 28, 29, 30, 31, 32, 133, 160})"

definition str_strip :: "string \<Rightarrow> string" where
  "str_strip s = rev (dropWhile is_space (rev (dropWhile is_space s)))"

definition upper_char :: "char \<Rightarrow> char" where
  "upper_char c =
     (let n = (of_char c :: nat) in if 97 \<le> n \<and> n \<le> 122 then char_of (n - 32) else c)"

definition str_upper :: "string \<Rightarrow> string" where
  "str_upper s = map upper_char s"

subsection \<open>Prices, the provider and the trace of effects\<close>

text \<open>A Python float that may be NaN (prices coming from the provider).\<close>

datatype pyfloat = NaN | Fin rat

text \<open>Python's truth value of a float: zero is false, every other value (NaN too) is true.\<close>

fun truthy :: "pyfloat \<Rightarrow> bool" where
  "truthy NaN = True"
| "truthy (Fin x) = (x \<noteq> 0)"

datatype event =
    FastInfo string
  | History2d string
  | HistoryFrom string int
  | Info string
  | Sleep nat

type_synonym world = "event list"

datatype 'a reply = Raised | Returned 'a

text \<open>
  The provider: \<open>fast_info_last_price\<close> is \<^verbatim>\<open>yf.Ticker(s).fast_info.get('last_price', None)\<close>,
  \<open>history_period_2d\<close> the \<^verbatim>\<open>Close\<close> column of \<^verbatim>\<open>yf.Ticker(s).history(period='2d')\<close>, and
  \<open>history_start\<close> the \<^verbatim>\<open>Close\<close> column of \<^verbatim>\<open>history(start=d, end=d + 4 days)\<close>.
  \<open>info_market_cap\<close> is \<^verbatim>\<open>yf.Ticker(s).info\<close>: \<open>None\<close> for an empty dictionary, else
  the value of its key \<^verbatim>\<open>marketCap\<close> (\<open>None\<close> when the key is missing).
\<close>

record provider =
  fast_info_last_price :: "world \<Rightarrow> string \<Rightarrow> pyfloat option reply"
  history_period_2d :: "world \<Rightarrow> string \<Rightarrow> pyfloat list reply"
  history_start :: "world \<Rightarrow> string \<Rightarrow> int \<Rightarrow> pyfloat list reply"
  info_market_cap :: "world \<Rightarrow> string \<Rightarrow> rat option option reply"

subsection \<open>get_market_cap_st\<close>

text \<open>
  The live capitalization, memoized in the dictionary \<^verbatim>\<open>market_cap_cache\<close>. A missing
  or non-positive value, an empty answer and an exception are all cached as \<open>None\<close>.
\<close>

type_synonym market_cap_cache = "string \<rightharpoonup> rat option"

definition get_market_cap_st ::
  "provider \<Rightarrow> market_cap_cache \<Rightarrow> string option \<Rightarrow> world
     \<Rightarrow> rat option \<times> market_cap_cache \<times> world" where
  "get_market_cap_st yf cache ticker_symbol w =
     (case (case ticker_symbol of None \<Rightarrow> None | Some s \<Rightarrow> if s = [] then None else Some s) of
        None \<Rightarrow> (None, cache, w)
      | Some s \<Rightarrow>
          (let ticker_symbol_upper = str_upper s in
           case cache ticker_symbol_upper of
             Some cached \<Rightarrow> (cached, cache, w)
           | None \<Rightarrow>
               (let w1 = w @ [Info ticker_symbol_upper] in
                case info_market_cap yf w ticker_symbol_upper of
                  Raised \<Rightarrow> (None, cache(ticker_symbol_upper \<mapsto> None), w1)
                | Returned None \<Rightarrow> (None, cache(ticker_symbol_upper \<mapsto> None), w1)
                | Returned (Some market_cap) \<Rightarrow>
                    (case (case market_cap of
                             None \<Rightarrow> None
                           | Some v \<Rightarrow> if v > 0 then Some v else None) of
                       Some v \<Rightarrow> (Some v, cache(ticker_symbol_upper \<mapsto> Some v), w1)
                     | None \<Rightarrow> (None, cache(ticker_symbol_upper \<mapsto> None), w1)))))"

subsection \<open>get_current_price\<close>

datatype attempt_result = Found pyfloat | NotFound | Failed

text \<open>
  The body of the \<^verbatim>\<open>try\<close> of one attempt: the fast quote, then the last close of a
  two-day history; \<open>Failed\<close> when either request raises.
\<close>

definition price_attempt :: "provider \<Rightarrow> string \<Rightarrow> world \<Rightarrow> attempt_result \<times> world" where
  "price_attempt yf ticker_symbol w =
     (let w1 = w @ [FastInfo ticker_symbol] in
      case fast_info_last_price yf w ticker_symbol of
        Raised \<Rightarrow> (Failed, w1)
      | Returned price \<Rightarrow>
          (case (case price of None \<Rightarrow> None | Some p \<Rightarrow> if truthy p then Some p else None) of
             Some p \<Rightarrow> (Found p, w1)
           | None \<Rightarrow>
               (let w2 = w1 @ [History2d ticker_symbol] in
                case history_period_2d yf w1 ticker_symbol of
                  Raised \<Rightarrow> (Failed, w2)
                | Returned tod \<Rightarrow>
                    (case rev tod of
                       [] \<Rightarrow> (NotFound, w2)
                     | close # _ \<Rightarrow> (Found close, w2)))))"

text \<open>
  The loop \<^verbatim>\<open>for attempt in range(2)\<close>: after a first attempt without a price the
  code sleeps 5 seconds, after a first attempt that raised 15 seconds; after the second
  it only prints. Falling out of the loop returns \<open>None\<close>.
\<close>

fun price_attempts :: "provider \<Rightarrow> string \<Rightarrow> nat list \<Rightarrow> world \<Rightarrow> pyfloat option \<times> world" where
  "price_attempts yf ticker_symbol [] w = (None, w)"
| "price_attempts yf ticker_symbol (attempt # rest) w =
     (case price_attempt yf ticker_symbol w of
        (Found price, w1) \<Rightarrow> (Some price, w1)
      | (NotFound, w1) \<Rightarrow>
          price_attempts yf ticker_symbol rest (if attempt = 0 then w1 @ [Sleep 5] else w1)
      | (Failed, w1) \<Rightarrow>
          price_attempts yf ticker_symbol rest (if attempt = 0 then w1 @ [Sleep 15] else w1))"

definition get_current_price :: "provider \<Rightarrow> string \<Rightarrow> world \<Rightarrow> pyfloat option \<times> world" where
  "get_current_price yf ticker_symbol w = price_attempts yf ticker_symbol [0 ..< 2] w"

text \<open>Observers of a trace: the attempts made for a symbol, and the sleeps.\<close>

definition attempts_made :: "string \<Rightarrow> world \<Rightarrow> nat" where
  "attempts_made ticker_symbol w = length (filter (\<lambda>e. e = FastInfo ticker_symbol) w)"

fun sleep_of :: "event \<Rightarrow> nat list" where
  "sleep_of (Sleep n) = [n]"
| "sleep_of _ = []"

definition sleeps :: "world \<Rightarrow> nat list" where
  "sleeps w = concat (map sleep_of w)"

subsection \<open>Trade records, frames and the heap\<close>

text \<open>
  A date cell is a timestamp in nanoseconds, a value that \<^verbatim>\<open>pd.to_datetime\<close> cannot
  parse, or the missing value \<^verbatim>\<open>NaT\<close>. \<^verbatim>\<open>pd.to_datetime(..., errors='coerce')\<close> turns
  the second into the third.
\<close>

datatype datecell = Timestamp int | Unparseable | NaT

fun to_datetime_coerce :: "datecell \<Rightarrow> datecell" where
  "to_datetime_coerce (Timestamp t) = Timestamp t"
| "to_datetime_coerce Unparseable = NaT"
| "to_datetime_coerce NaT = NaT"

text \<open>
  One row of the \<^verbatim>\<open>options_activity\<close> table. The last five fields are the columns
  that \<^verbatim>\<open>create_expiration_summary_table\<close> adds to its working copy; a field whose
  column is not among the frame's \<open>columns\<close> is never read. \<open>data_date\<close> is the ordinal
  of the day, \<open>None\<close> when missing.
\<close>

record trade =
  data_date :: "int option"
  underlying_ticker :: "string option"
  expiration_date :: datecell
  option_type :: "string option"
  sentiment :: "string option"
  premium_usd :: "rat option"
  market_cap_ingested :: "rat option"
  time_to_expiry_days :: "int option"
  call_premium_exp :: "rat option"
  put_premium_exp :: "rat option"
  bullish_premium_exp :: "rat option"
  bearish_premium_exp :: "rat option"

record frame =
  columns :: "string list"
  rows :: "trade list"

definition frame_empty :: "frame \<Rightarrow> bool" where
  "frame_empty df = (rows df = [] \<or> columns df = [])"

definition empty_frame :: frame where
  "empty_frame = \<lparr>columns = [], rows = []\<rparr>"

type_synonym addr = nat
type_synonym heap = "frame list"

text \<open>An in-place operation on the frame object at an address.\<close>

definition modify :: "heap \<Rightarrow> addr \<Rightarrow> (frame \<Rightarrow> frame) \<Rightarrow> heap" where
  "modify h s f = h[s := f (h ! s)]"

text \<open>\<^verbatim>\<open>df[col] = ...\<close>: every row gets its new cell, and the column its name.\<close>

definition assign :: "string \<Rightarrow> (trade \<Rightarrow> trade) \<Rightarrow> frame \<Rightarrow> frame" where
  "assign col f df =
     \<lparr>columns = (if col \<in> set (columns df) then columns df else columns df @ [col]),
      rows = map f (rows df)\<rparr>"

text \<open>\<^verbatim>\<open>Series.sum()\<close> skips missing values.\<close>

definition nansum :: "rat option list \<Rightarrow> rat" where
  "nansum xs = sum_list (map (\<lambda>v. case v of None \<Rightarrow> 0 | Some x \<Rightarrow> x) xs)"

datatype py_error = KeyError | TypeError | IndexError

subsection \<open>fetch_options_activity_for_range\<close>

text \<open>
  The query \<^verbatim>\<open>SELECT * FROM options_activity WHERE data_date >= :start_date AND
  data_date <= :end_date ORDER BY data_date, underlying_ticker\<close>. A comparison with NULL is
  not true, so a row without a date is not selected; NULL tickers sort last; text is
  ordered by its bytes.
\<close>

definition range_query :: "trade list \<Rightarrow> int \<Rightarrow> int \<Rightarrow> trade list" where
  "range_query options_activity start_date end_date =
     sort_key (\<lambda>r. (data_date r, underlying_ticker r = None, underlying_ticker r))
       (filter (\<lambda>r. case data_date r of None \<Rightarrow> False
                                      | Some d \<Rightarrow> start_date \<le> d \<and> d \<le> end_date)
          options_activity)"

definition normalize_row :: "trade \<Rightarrow> trade" where
  "normalize_row r =
     r\<lparr>expiration_date := to_datetime_coerce (expiration_date r),
       premium_usd := Some (case premium_usd r of None \<Rightarrow> 0 | Some p \<Rightarrow> p)\<rparr>"

text \<open>
  The store is \<open>Raised\<close> when the connection or the query fails, and otherwise returns
  the table. Every exception inside the \<^verbatim>\<open>try\<close> (a failed connection, a column the
  query or the normalisation names and the table lacks) ends in the empty frame.
\<close>

definition fetch_options_activity_for_range :: "frame reply \<Rightarrow> int \<Rightarrow> int \<Rightarrow> frame" where
  "fetch_options_activity_for_range store start_date end_date =
     (case store of
        Raised \<Rightarrow> empty_frame
      | Returned options_activity \<Rightarrow>
          if ''data_date'' \<notin> set (columns options_activity)
             \<or> ''underlying_ticker'' \<notin> set (columns options_activity) then empty_frame
          else
            (let df = \<lparr>columns = columns options_activity,
                       rows = range_query (rows options_activity) start_date end_date\<rparr> in
             if \<not> frame_empty df then
               if ''expiration_date'' \<notin> set (columns df) \<or> ''premium_usd'' \<notin> set (columns df)
               then empty_frame
               else \<lparr>columns = columns df, rows = map normalize_row (rows df)\<rparr>
             else df))"

subsection \<open>analyze_ticker_dashboard\<close>

record ticker_summary =
  Ticker :: string
  Market_Cap :: "rat option"
  Current_Price :: "pyfloat option"
  Price_at_Period_Start :: pyfloat
  Price_Change_Pct :: pyfloat
  Total_Activity_Prem :: rat
  Total_Call_Vol_Prem :: rat
  Total_Put_Vol_Prem :: rat
  Bullish_Prem :: rat
  Bearish_Prem :: rat
  Bullish_MCap_Score :: rat
  Bearish_MCap_Score :: rat

text \<open>\<^verbatim>\<open>Series.unique()\<close>: the distinct values, in the order of their first appearance.\<close>

definition unique_vals :: "'a list \<Rightarrow> 'a list" where
  "unique_vals xs = rev (remdups (rev xs))"

text \<open>
  \<^verbatim>\<open>sorted(...)\<close> of the unique tickers: Python cannot compare a missing value with a
  string, so a list that holds both raises \<^verbatim>\<open>TypeError\<close>.
\<close>

definition sorted_tickers :: "string option list \<Rightarrow> py_error + string option list" where
  "sorted_tickers u =
     (if None \<in> set u \<and> list_ex (\<lambda>t. t \<noteq> None) u then Inl TypeError else Inr (sort u))"

definition skip_ticker :: "string option \<Rightarrow> bool" where
  "skip_ticker ticker =
     (case ticker of
        None \<Rightarrow> True
      | Some s \<Rightarrow> s = [] \<or> str_upper (str_strip s) = ''NAN'' \<or> str_strip s = [])"

text \<open>
  numpy's \<^verbatim>\<open>argsort(kind='quicksort')\<close>: from a list of keys to the list of positions
  in sorted order. What is known of it is \<open>sorts\<close>: it returns each position once, and
  the keys read in that order ascend. \<open>stable_argsort\<close> is one such function.
\<close>

type_synonym argsort = "int list \<Rightarrow> nat list"

definition sorts :: "argsort \<Rightarrow> bool" where
  "sorts argsort =
     (\<forall>ks. distinct (argsort ks) \<and> set (argsort ks) = {0 ..< length ks}
           \<and> sorted (map (\<lambda>i. ks ! i) (argsort ks)))"

definition stable_argsort :: argsort where
  "stable_argsort ks = sort_key (\<lambda>i. ks ! i) [0 ..< length ks]"

text \<open>
  \<^verbatim>\<open>sort_values(by='data_date', ascending=False)\<close>, as pandas' \<^verbatim>\<open>nargsort\<close> does it:
  the dated rows are reversed, \<^verbatim>\<open>argsort\<close> orders their keys, the indexer is reversed,
  and the rows without a date come last. A position outside the frame, which numpy does
  not return, selects no row.
\<close>

definition sort_values_data_date_desc :: "argsort \<Rightarrow> trade list \<Rightarrow> trade list" where
  "sort_values_data_date_desc argsort rs =
     (let non_nans = rev (filter (\<lambda>r. data_date r \<noteq> None) rs);
          items = map (\<lambda>r. case data_date r of None \<Rightarrow> 0 | Some d \<Rightarrow> d) non_nans;
          indexer = rev (argsort items)
      in map (\<lambda>i. non_nans ! i) (filter (\<lambda>i. i < length non_nans) indexer)
         @ filter (\<lambda>r. data_date r = None) rs)"

text \<open>
  The capitalization of the latest record of the ticker: \<^verbatim>\<open>sort_values\<close> raises
  \<^verbatim>\<open>KeyError\<close> without the column \<^verbatim>\<open>data_date\<close>, and \<^verbatim>\<open>iloc[0]\<close> would raise on no rows.
\<close>

definition market_cap_to_use_for_calc ::
  "argsort \<Rightarrow> frame \<Rightarrow> trade list \<Rightarrow> py_error + rat option" where
  "market_cap_to_use_for_calc argsort df ticker_df_for_mcap =
     (if ticker_df_for_mcap \<noteq> [] \<and> ''market_cap_ingested'' \<in> set (columns df) then
        if ''data_date'' \<notin> set (columns df) then Inl KeyError
        else
          (case sort_values_data_date_desc argsort ticker_df_for_mcap of
             [] \<Rightarrow> Inl IndexError
           | latest_record_for_ticker # _ \<Rightarrow> Inr (market_cap_ingested latest_record_for_ticker))
      else Inr None)"

definition mcap_val_for_calc :: "rat option \<Rightarrow> rat" where
  "mcap_val_for_calc market_cap =
     (case market_cap of None \<Rightarrow> 0 | Some v \<Rightarrow> if v > 0 then v else 0)"

text \<open>
  The premium sums of one ticker. \<open>premium_usd\<close> is a numeric column whenever it is
  present (the type of the field; \<^verbatim>\<open>fetch_options_activity_for_range\<close> leaves it so), so
  the test \<^verbatim>\<open>is_numeric_dtype\<close> of the source is the test for the column. The sentiment
  is filled, trimmed and put in upper case before it is compared; the option type is
  only put in upper case.
\<close>

definition dropna_premium :: "trade list \<Rightarrow> trade list" where
  "dropna_premium ticker_df = filter (\<lambda>r. premium_usd r \<noteq> None) ticker_df"

abbreviation premium_or_zero :: "trade \<Rightarrow> rat" where
  "premium_or_zero r \<equiv> (case premium_usd r of None \<Rightarrow> 0 | Some p \<Rightarrow> p)"

definition premium_sum :: "trade list \<Rightarrow> rat" where
  "premium_sum rs = nansum (map premium_usd rs)"

definition sentiment_series :: "trade \<Rightarrow> string" where
  "sentiment_series r =
     str_upper (str_strip (case sentiment r of None \<Rightarrow> ''UNKNOWN'' | Some s \<Rightarrow> s))"

definition option_type_upper :: "trade \<Rightarrow> string option" where
  "option_type_upper r = map_option str_upper (option_type r)"

definition total_premium_for_ticker :: "frame \<Rightarrow> trade list \<Rightarrow> rat" where
  "total_premium_for_ticker df ticker_df =
     (if ''premium_usd'' \<in> set (columns df) then premium_sum (dropna_premium ticker_df) else 0)"

definition sentiment_premium :: "string \<Rightarrow> frame \<Rightarrow> trade list \<Rightarrow> rat" where
  "sentiment_premium label df ticker_df =
     (if ''premium_usd'' \<in> set (columns df) \<and> ''sentiment'' \<in> set (columns df) then
        premium_sum (filter (\<lambda>r. sentiment_series r = label) (dropna_premium ticker_df))
      else 0)"

definition option_type_premium :: "string \<Rightarrow> frame \<Rightarrow> trade list \<Rightarrow> rat" where
  "option_type_premium label df ticker_df =
     (if ''premium_usd'' \<in> set (columns df) \<and> ''option_type'' \<in> set (columns df) then
        premium_sum (filter (\<lambda>r. option_type_upper r = Some label) (dropna_premium ticker_df))
      else 0)"

text \<open>\<^verbatim>\<open>(premium / mcap_val_for_calc) * 100000 if mcap_val_for_calc > 0 else 0\<close>\<close>

definition mcap_score :: "rat \<Rightarrow> rat \<Rightarrow> rat" where
  "mcap_score premium mcap = (if mcap > 0 then (premium / mcap) * 100000 else 0)"

definition price_change_pct :: "pyfloat option \<Rightarrow> pyfloat \<Rightarrow> pyfloat" where
  "price_change_pct current_price price_at_period_start =
     (case (current_price, price_at_period_start) of
        (Some (Fin c), Fin s) \<Rightarrow> if s \<noteq> 0 then Fin (((c - s) / s) * 100) else NaN
      | _ \<Rightarrow> NaN)"

text \<open>The \<^verbatim>\<open>try\<close> around the historical price: an exception leaves both fields NaN.\<close>

definition price_history ::
  "provider \<Rightarrow> string \<Rightarrow> int \<Rightarrow> pyfloat option \<Rightarrow> world \<Rightarrow> (pyfloat \<times> pyfloat) \<times> world" where
  "price_history yf ticker start_hist_date current_price w =
     (let w1 = w @ [HistoryFrom ticker start_hist_date] in
      case history_start yf w ticker start_hist_date of
        Raised \<Rightarrow> ((NaN, NaN), w1)
      | Returned history \<Rightarrow>
          (case history of
             [] \<Rightarrow> ((NaN, NaN), w1)
           | price_at_period_start # _ \<Rightarrow>
               ((price_at_period_start, price_change_pct current_price price_at_period_start), w1)))"

text \<open>\<^verbatim>\<open>df[df['underlying_ticker'] == ticker]\<close>: the rows of exactly that symbol.\<close>

definition rows_of_ticker :: "frame \<Rightarrow> string \<Rightarrow> trade list" where
  "rows_of_ticker df ticker = filter (\<lambda>r. underlying_ticker r = Some ticker) (rows df)"

text \<open>The body of the loop over the tickers, for one ticker that is not skipped.\<close>

definition analyze_ticker ::
  "provider \<Rightarrow> argsort \<Rightarrow> frame \<Rightarrow> int \<Rightarrow> string \<Rightarrow> world
     \<Rightarrow> (py_error + ticker_summary) \<times> world" where
  "analyze_ticker yf argsort df selected_range_start_date_dt ticker w =
     (let (current_price, w1) = get_current_price yf ticker w;
          ticker_df_for_mcap = rows_of_ticker df ticker
      in case market_cap_to_use_for_calc argsort df ticker_df_for_mcap of
           Inl e \<Rightarrow> (Inl e, w1)
         | Inr market_cap \<Rightarrow>
             (let mcap = mcap_val_for_calc market_cap;
                  ticker_df = ticker_df_for_mcap;
                  bullish_premium = sentiment_premium ''BULLISH'' df ticker_df;
                  bearish_premium = sentiment_premium ''BEARISH'' df ticker_df;
                  ((price_at_period_start, pct), w2) =
                     price_history yf ticker selected_range_start_date_dt current_price w1
              in (Inr \<lparr>Ticker = ticker,
                        Market_Cap = market_cap,
                        Current_Price = current_price,
                        Price_at_Period_Start = price_at_period_start,
                        Price_Change_Pct = pct,
                        Total_Activity_Prem = total_premium_for_ticker df ticker_df,
                        Total_Call_Vol_Prem = option_type_premium ''CALL'' df ticker_df,
                        Total_Put_Vol_Prem = option_type_premium ''PUT'' df ticker_df,
                        Bullish_Prem = bullish_premium,
                        Bearish_Prem = bearish_premium,
                        Bullish_MCap_Score = mcap_score bullish_premium mcap,
                        Bearish_MCap_Score = mcap_score bearish_premium mcap\<rparr>, w2)))"

fun analyze_loop ::
  "provider \<Rightarrow> argsort \<Rightarrow> frame \<Rightarrow> int \<Rightarrow> string option list \<Rightarrow> world
     \<Rightarrow> (py_error + ticker_summary list) \<times> world" where
  "analyze_loop yf argsort df start [] w = (Inr [], w)"
| "analyze_loop yf argsort df start (ticker # unique_tickers) w =
     (case (if skip_ticker ticker then None else ticker) of
        None \<Rightarrow> analyze_loop yf argsort df start unique_tickers w
      | Some t \<Rightarrow>
          (case analyze_ticker yf argsort df start t w of
             (Inl e, w1) \<Rightarrow> (Inl e, w1)
           | (Inr row, w1) \<Rightarrow>
               (case analyze_loop yf argsort df start unique_tickers w1 of
                  (Inl e, w2) \<Rightarrow> (Inl e, w2)
                | (Inr analysis_results, w2) \<Rightarrow> (Inr (row # analysis_results), w2))))"

text \<open>
  The routine reads the frame at its address and builds new objects only (a boolean
  mask, \<^verbatim>\<open>sort_values\<close> and \<^verbatim>\<open>dropna\<close> without \<^verbatim>\<open>inplace\<close> return new frames), so
  it has no write to the heap. The empty result \<^verbatim>\<open>pd.DataFrame()\<close> is the empty list
  of rows.
\<close>

definition analyze_ticker_dashboard ::
  "provider \<Rightarrow> argsort \<Rightarrow> heap \<Rightarrow> addr \<Rightarrow> int \<Rightarrow> world
     \<Rightarrow> (py_error + ticker_summary list) \<times> heap \<times> world" where
  "analyze_ticker_dashboard yf argsort h options_df_for_period selected_range_start_date_dt w =
     (let df = h ! options_df_for_period in
      if frame_empty df then (Inr [], h, w)
      else if ''underlying_ticker'' \<notin> set (columns df) then (Inl KeyError, h, w)
      else
        (case sorted_tickers (unique_vals (map underlying_ticker (rows df))) of
           Inl e \<Rightarrow> (Inl e, h, w)
         | Inr unique_tickers \<Rightarrow>
             (let (res, w1) =
                     analyze_loop yf argsort df selected_range_start_date_dt unique_tickers w
              in (res, h, w1))))"

subsection \<open>create_expiration_summary_table\<close>

record expiration_summary =
  Expiration_Date :: int
  Days_to_Expiry :: int
  Total_Premium :: rat
  Unique_Tickers :: nat
  Call_Premium :: rat
  Put_Premium :: rat
  Bullish_Premium :: rat
  Bearish_Premium :: rat
  Options_Count :: nat

definition required_columns :: "string list" where
  "required_columns =
     [''expiration_date'', ''premium_usd'', ''underlying_ticker'', ''option_type'', ''sentiment'']"

definition ns_per_day :: int where
  "ns_per_day = 86400000000000"

text \<open>\<^verbatim>\<open>(expiration_date - today_date).dt.days\<close>: whole days, rounded down.\<close>

definition dt_days :: "datecell \<Rightarrow> int \<Rightarrow> int option" where
  "dt_days d today_date =
     (case d of Timestamp t \<Rightarrow> Some ((t - today_date) div ns_per_day) | _ \<Rightarrow> None)"

text \<open>\<^verbatim>\<open>dropna(subset=['expiration_date', 'premium_usd'])\<close>\<close>

definition dropna_expiration_premium :: "frame \<Rightarrow> frame" where
  "dropna_expiration_premium df =
     \<lparr>columns = columns df,
      rows = filter (\<lambda>r. expiration_date r \<noteq> NaT \<and> premium_usd r \<noteq> None) (rows df)\<rparr>"

text \<open>\<^verbatim>\<open>np.where(column == label, premium_usd, 0)\<close>\<close>

definition np_where :: "string option \<Rightarrow> string \<Rightarrow> rat option \<Rightarrow> rat option" where
  "np_where cell label premium = (if cell = Some label then premium else Some 0)"

text \<open>
  \<^verbatim>\<open>groupby(['expiration_date', 'time_to_expiry_days'])\<close>: one group per distinct
  pair of keys, in ascending order of the pairs; a row with a missing key is in no group.
  \<^verbatim>\<open>nunique\<close> and \<^verbatim>\<open>count\<close> leave missing tickers out.
\<close>

definition group_key :: "trade \<Rightarrow> (int \<times> int) option" where
  "group_key r =
     (case (expiration_date r, time_to_expiry_days r) of
        (Timestamp t, Some d) \<Rightarrow> Some (t, d)
      | _ \<Rightarrow> None)"

definition group_keys :: "trade list \<Rightarrow> (int \<times> int) list" where
  "group_keys rs = sort (remdups (List.map_filter group_key rs))"

definition agg :: "trade list \<Rightarrow> int \<times> int \<Rightarrow> expiration_summary" where
  "agg rs k =
     (let g = filter (\<lambda>r. group_key r = Some k) rs in
      \<lparr>Expiration_Date = fst k,
       Days_to_Expiry = snd k,
       Total_Premium = nansum (map premium_usd g),
       Unique_Tickers = length (remdups (List.map_filter underlying_ticker g)),
       Call_Premium = nansum (map call_premium_exp g),
       Put_Premium = nansum (map put_premium_exp g),
       Bullish_Premium = nansum (map bullish_premium_exp g),
       Bearish_Premium = nansum (map bearish_premium_exp g),
       Options_Count = length (List.map_filter underlying_ticker g)\<rparr>)"

definition groupby_agg :: "trade list \<Rightarrow> expiration_summary list" where
  "groupby_agg rs = map (agg rs) (group_keys rs)"

text \<open>
  \<open>today\<close> is the ordinal of \<^verbatim>\<open>datetime.now().date()\<close>. \<open>summary_df\<close> is the address of
  the copy; every later statement of the source writes to that object. The groups reach
  the final \<^verbatim>\<open>sort_values\<close> in the order of their expiration dates, so already in the
  order of their days to expiry; among groups of equal days the model keeps that order.
\<close>

definition create_expiration_summary_table ::
  "heap \<Rightarrow> addr \<Rightarrow> int \<Rightarrow> expiration_summary list \<times> heap" where
  "create_expiration_summary_table h options_df_for_period today =
     (let df = h ! options_df_for_period in
      if frame_empty df \<or> \<not> list_all (\<lambda>col. col \<in> set (columns df)) required_columns
      then ([], h)
      else
        (let summary_df = length h;
             h1 = h @ [df];
             h2 = modify h1 summary_df
                    (assign ''expiration_date''
                       (\<lambda>r. r\<lparr>expiration_date := to_datetime_coerce (expiration_date r)\<rparr>));
             h3 = modify h2 summary_df dropna_expiration_premium
         in if frame_empty (h3 ! summary_df) then ([], h3)
            else
              (let today_date = today * ns_per_day;
                   h4 = modify h3 summary_df
                          (assign ''time_to_expiry_days''
                             (\<lambda>r. r\<lparr>time_to_expiry_days :=
                                       dt_days (expiration_date r) today_date\<rparr>));
                   h5 = modify h4 summary_df
                          (assign ''call_premium_exp''
                             (\<lambda>r. r\<lparr>call_premium_exp :=
                                       np_where (option_type r) ''CALL'' (premium_usd r)\<rparr>));
                   h6 = modify h5 summary_df
                          (assign ''put_premium_exp''
                             (\<lambda>r. r\<lparr>put_premium_exp :=
                                       np_where (option_type r) ''PUT'' (premium_usd r)\<rparr>));
                   h7 = modify h6 summary_df
                          (assign ''bullish_premium_exp''
                             (\<lambda>r. r\<lparr>bullish_premium_exp :=
                                       np_where (sentiment r) ''Bullish'' (premium_usd r)\<rparr>));
                   h8 = modify h7 summary_df
                          (assign ''bearish_premium_exp''
                             (\<lambda>r. r\<lparr>bearish_premium_exp :=
                                       np_where (sentiment r) ''Bearish'' (premium_usd r)\<rparr>));
                   expiration_analysis = groupby_agg (rows (h8 ! summary_df))
               in (sort_key Days_to_Expiry expiration_analysis, h8))))"

subsection \<open>The expiration summary, stated on the records\<close>

text \<open>
  The wording of the summary as a function of the input records, to be compared with
  what the code computes through its working copy: the records that survive the
  \<^verbatim>\<open>dropna\<close> (a parseable expiration date and a premium), the records of one expiration
  date among them, and the summary row of that date.
\<close>

fun timestamp_of :: "datecell \<Rightarrow> int option" where
  "timestamp_of (Timestamp t) = Some t"
| "timestamp_of Unparseable = None"
| "timestamp_of NaT = None"

definition kept :: "trade \<Rightarrow> bool" where
  "kept r = (timestamp_of (expiration_date r) \<noteq> None \<and> premium_usd r \<noteq> None)"

definition kept_rows :: "frame \<Rightarrow> trade list" where
  "kept_rows df = filter kept (rows df)"

definition expiring :: "frame \<Rightarrow> int \<Rightarrow> trade list" where
  "expiring df t = filter (\<lambda>r. expiration_date r = Timestamp t) (kept_rows df)"

definition expiration_dates :: "frame \<Rightarrow> int list" where
  "expiration_dates df =
     sort (remdups (List.map_filter (\<lambda>r. timestamp_of (expiration_date r)) (kept_rows df)))"

definition days_to_expiry :: "int \<Rightarrow> int \<Rightarrow> int" where
  "days_to_expiry today t = (t - today * ns_per_day) div ns_per_day"

definition summary_of :: "frame \<Rightarrow> int \<Rightarrow> int \<Rightarrow> expiration_summary" where
  "summary_of df today t =
     (let g = expiring df t in
      \<lparr>Expiration_Date = t,
       Days_to_Expiry = days_to_expiry today t,
       Total_Premium = premium_sum g,
       Unique_Tickers = length (remdups (List.map_filter underlying_ticker g)),
       Call_Premium = premium_sum (filter (\<lambda>r. option_type r = Some ''CALL'') g),
       Put_Premium = premium_sum (filter (\<lambda>r. option_type r = Some ''PUT'') g),
       Bullish_Premium = premium_sum (filter (\<lambda>r. sentiment r = Some ''Bullish'') g),
       Bearish_Premium = premium_sum (filter (\<lambda>r. sentiment r = Some ''Bearish'') g),
       Options_Count = length (List.map_filter underlying_ticker g)\<rparr>)"

definition expiration_table :: "frame \<Rightarrow> int \<Rightarrow> expiration_summary list" where
  "expiration_table df today =
     (if frame_empty df \<or> \<not> list_all (\<lambda>col. col \<in> set (columns df)) required_columns then []
      else sort_key Days_to_Expiry (map (summary_of df today) (expiration_dates df)))"

text \<open>The five cells that the code derives for a row of its working copy.\<close>

definition derive :: "int \<Rightarrow> trade \<Rightarrow> trade" where
  "derive today_date r =
     r\<lparr>time_to_expiry_days := dt_days (expiration_date r) today_date,
       call_premium_exp := np_where (option_type r) ''CALL'' (premium_usd r),
       put_premium_exp := np_where (option_type r) ''PUT'' (premium_usd r),
       bullish_premium_exp := np_where (sentiment r) ''Bullish'' (premium_usd r),
       bearish_premium_exp := np_where (sentiment r) ''Bearish'' (premium_usd r)\<rparr>"

text \<open>The pair of keys of the group of an expiration timestamp.\<close>

definition key_of :: "int \<Rightarrow> int \<Rightarrow> int \<times> int" where
  "key_of today_date t = (t, (t - today_date) div ns_per_day)"

subsection \<open>Sample data\<close>

text \<open>A provider that is unreachable: every request raises.\<close>

definition provider_down :: provider where
  "provider_down =
     \<lparr>fast_info_last_price = (\<lambda>w s. Raised),
      history_period_2d = (\<lambda>w s. Raised),
      history_start = (\<lambda>w s d. Raised),
      info_market_cap = (\<lambda>w s. Raised)\<rparr>"

definition all_columns :: "string list" where
  "all_columns =
     [''data_date'', ''underlying_ticker'', ''expiration_date'', ''option_type'',
      ''sentiment'', ''premium_usd'', ''market_cap_ingested'']"

text \<open>A stored row: date, ticker, expiration, option type, sentiment, premium, capitalization.\<close>

definition mk_trade ::
  "int \<Rightarrow> string \<Rightarrow> datecell \<Rightarrow> string \<Rightarrow> string \<Rightarrow> rat option \<Rightarrow> rat option \<Rightarrow> trade" where
  "mk_trade d t e ot s p m =
     \<lparr>data_date = Some d, underlying_ticker = Some t, expiration_date = e,
      option_type = Some ot, sentiment = Some s, premium_usd = p, market_cap_ingested = m,
      time_to_expiry_days = None, call_premium_exp = None, put_premium_exp = None,
      bullish_premium_exp = None, bearish_premium_exp = None\<rparr>"

text \<open>One bullish trade of 500 on a ticker whose capitalization was not ingested.\<close>

definition frame_no_cap :: frame where
  "frame_no_cap =
     \<lparr>columns = all_columns,
      rows = [mk_trade 1 ''AAPL'' (Timestamp 0) ''CALL'' ''Bullish'' (Some 500) None]\<rparr>"


text \<open>
  Three trades of one ticker, ingested on three days with three capitalizations, and a
  later trade of another ticker.
\<close>

definition frame_two_tickers :: frame where
  "frame_two_tickers =
     \<lparr>columns = all_columns,
      rows = [mk_trade 1 ''NVDA'' (Timestamp 0) ''CALL'' ''Bullish'' (Some 1000) (Some 100),
              mk_trade 3 ''NVDA'' (Timestamp 0) ''CALL'' ''Bullish'' (Some 1000) (Some 300),
              mk_trade 5 ''AAPL'' (Timestamp 0) ''CALL'' ''Bullish'' (Some 40) (Some 999),
              mk_trade 2 ''NVDA'' (Timestamp 0) ''PUT'' ''Bearish'' (Some 1000) (Some 200)]\<rparr>"


text \<open>
  Two trades of one expiration date; the second has no ticker and its sentiment is
  written in upper case.
\<close>

definition frame_missing_ticker :: frame where
  "frame_missing_ticker =
     \<lparr>columns = all_columns,
      rows = [mk_trade 1 ''NVDA'' (Timestamp 0) ''CALL'' ''Bullish'' (Some 300) None,
              (mk_trade 1 [] (Timestamp 0) ''PUT'' ''BULLISH'' (Some 500) None)
                \<lparr>underlying_ticker := None\<rparr>]\<rparr>"

text \<open>
  Five trades: two are dropped by the summary (an unparseable expiration date, a missing
  premium), one has the sentiment in upper case and one the option type in lower case.
\<close>

definition frame_expirations :: frame where
  "frame_expirations =
     \<lparr>columns = all_columns,
      rows = [mk_trade 1 ''NVDA'' (Timestamp (3 * ns_per_day + 5)) ''CALL'' ''Bullish''
                (Some 1000) None,
              mk_trade 1 ''AAPL'' (Timestamp ns_per_day) ''PUT'' ''BULLISH'' (Some 500) None,
              mk_trade 1 ''AAPL'' Unparseable ''PUT'' ''Bearish'' (Some 700) None,
              mk_trade 1 ''TSLA'' (Timestamp ns_per_day) ''CALL'' ''Bearish'' None None,
              mk_trade 1 ''MSFT'' (Timestamp ns_per_day) ''call'' ''Bearish'' (Some 200) None]\<rparr>"

text \<open>
  One trade whose option type and sentiment carry blanks; those of the sentiment are a
  no-break space (code point 160), a space and a next-line character (code point 133).
\<close>

definition frame_padded :: frame where
  "frame_padded =
     \<lparr>columns = all_columns,
      rows = [mk_trade 1 ''NVDA'' (Timestamp 0) ''CALL ''
                (CHR 0xA0 # '' bullish'' @ [CHR 0x85]) (Some 100) None]\<rparr>"

text \<open>A stored table of three trades, dated on the days 3, 5 and 6.\<close>

definition table_three_days :: frame where
  "table_three_days =
     \<lparr>columns = all_columns,
      rows = [mk_trade 5 ''NVDA'' (Timestamp 0) ''CALL'' ''Bullish'' (Some 1000) None,
              mk_trade 3 ''AAPL'' Unparseable ''PUT'' ''Bearish'' None None,
              mk_trade 6 ''TSLA'' NaT ''PUT'' ''Bearish'' (Some 10) None]\<rparr>"

section \<open>Properties\<close>

subsection \<open>The retry of get_current_price\<close>

lemma range2: "[0 ..< 2] = [0, Suc 0]"
  by (simp add: upt_rec)

lemma price_attempt_trace:
  assumes "price_attempt yf s w = (a, w1)"
  shows "attempts_made s w1 = Suc (attempts_made s w) \<and> sleeps w1 = sleeps w"
  using assms
  by (auto simp: price_attempt_def attempts_made_def sleeps_def Let_def
      split: reply.splits option.splits list.splits if_splits)

text \<open>
  C5. Whatever the provider answers, \<open>get_current_price\<close> returns a value (it is a total
  function whose result type has no error). When the first attempt finds a price it is
  returned at once. When the first attempt finds nothing (\<open>NotFound\<close>) or raises
  (\<open>Failed\<close>), the code sleeps once (5 seconds after an empty result, 15 after an
  exception) and makes exactly one more attempt: two attempts in all, one sleep in the
  trace. The result is the second attempt's price, and \<open>None\<close> when that attempt fails too.
\<close>

theorem get_current_price_retries_once:
  assumes "price_attempt yf s w = (a1, w1)"
  shows "case a1 of
      Found p \<Rightarrow> get_current_price yf s w = (Some p, w1)
    | _ \<Rightarrow>
       (let d = (if a1 = NotFound then 5 else 15);
            (a2, w2) = price_attempt yf s (w1 @ [Sleep d])
        in get_current_price yf s w = ((case a2 of Found p \<Rightarrow> Some p | _ \<Rightarrow> None), w2)
           \<and> attempts_made s w2 = attempts_made s w + 2
           \<and> sleeps w2 = sleeps w @ [d])"
proof (cases a1)
  case (Found p)
  with assms show ?thesis by (simp add: get_current_price_def range2)
next
  case NotFound
  obtain a2 w2 where second: "price_attempt yf s (w1 @ [Sleep 5]) = (a2, w2)"
    by (cases "price_attempt yf s (w1 @ [Sleep 5])")
  from price_attempt_trace[OF assms] price_attempt_trace[OF second]
  have tr: "attempts_made s w2 = attempts_made s w + 2" "sleeps w2 = sleeps w @ [5]"
    by (simp_all add: attempts_made_def sleeps_def)
  from assms NotFound second
  have "get_current_price yf s w = ((case a2 of Found p \<Rightarrow> Some p | _ \<Rightarrow> None), w2)"
    by (cases a2) (simp_all add: get_current_price_def range2)
  with NotFound second tr show ?thesis by simp
next
  case Failed
  obtain a2 w2 where second: "price_attempt yf s (w1 @ [Sleep 15]) = (a2, w2)"
    by (cases "price_attempt yf s (w1 @ [Sleep 15])")
  from price_attempt_trace[OF assms] price_attempt_trace[OF second]
  have tr: "attempts_made s w2 = attempts_made s w + 2" "sleeps w2 = sleeps w @ [15]"
    by (simp_all add: attempts_made_def sleeps_def)
  from assms Failed second
  have "get_current_price yf s w = ((case a2 of Found p \<Rightarrow> Some p | _ \<Rightarrow> None), w2)"
    by (cases a2) (simp_all add: get_current_price_def range2)
  with Failed second tr show ?thesis by simp
qed

lemma price_attempt_provider_down:
  "price_attempt provider_down s w = (Failed, w @ [FastInfo s])"
  by (simp add: price_attempt_def provider_down_def)

theorem get_current_price_retries_once_witness:
  "price_attempt provider_down ''NVDA'' [] = (Failed, [FastInfo ''NVDA''])
   \<and> get_current_price provider_down ''NVDA'' []
       = (None, [FastInfo ''NVDA'', Sleep 15, FastInfo ''NVDA''])
   \<and> attempts_made ''NVDA'' [FastInfo ''NVDA'', Sleep 15, FastInfo ''NVDA''] = 2
   \<and> sleeps [FastInfo ''NVDA'', Sleep 15, FastInfo ''NVDA''] = [15]"
  using get_current_price_retries_once
          [of provider_down "''NVDA''" "[]" Failed "[FastInfo ''NVDA'']"]
  by (simp add: price_attempt_provider_down attempts_made_def sleeps_def)

subsection \<open>The rows of analyze_ticker_dashboard\<close>

lemma map_filter_map: "List.map_filter f (map g xs) = List.map_filter (\<lambda>x. f (g x)) xs"
  by (induction xs) (auto simp: List.map_filter_simps split: option.splits)

lemma analyze_ticker_fields:
  assumes "analyze_ticker yf qs df start t w = (Inr row, w1)"
  shows "Ticker row = t"
    and "market_cap_to_use_for_calc qs df (rows_of_ticker df t) = Inr (Market_Cap row)"
    and "Total_Activity_Prem row = total_premium_for_ticker df (rows_of_ticker df t)"
    and "Total_Call_Vol_Prem row = option_type_premium ''CALL'' df (rows_of_ticker df t)"
    and "Total_Put_Vol_Prem row = option_type_premium ''PUT'' df (rows_of_ticker df t)"
    and "Bullish_Prem row = sentiment_premium ''BULLISH'' df (rows_of_ticker df t)"
    and "Bearish_Prem row = sentiment_premium ''BEARISH'' df (rows_of_ticker df t)"
    and "Bullish_MCap_Score row = mcap_score (Bullish_Prem row) (mcap_val_for_calc (Market_Cap row))"
    and "Bearish_MCap_Score row = mcap_score (Bearish_Prem row) (mcap_val_for_calc (Market_Cap row))"
  using assms
  by (auto simp: analyze_ticker_def Let_def split: prod.splits sum.splits)

lemma analyze_loop_rows:
  "analyze_loop yf qs df start ts w = (Inr tbl, w') \<Longrightarrow> row \<in> set tbl \<Longrightarrow>
     \<exists>t w0 w1. Some t \<in> set ts \<and> analyze_ticker yf qs df start t w0 = (Inr row, w1)"
proof (induction ts arbitrary: w tbl)
  case Nil
  then show ?case by simp
next
  case (Cons t ts)
  show ?case
  proof (cases "if skip_ticker t then None else t")
    case None
    with Cons.prems have "analyze_loop yf qs df start ts w = (Inr tbl, w')" by simp
    from Cons.IH[OF this Cons.prems(2)] show ?thesis by auto
  next
    case (Some s)
    then have ts: "t = Some s" by (auto split: if_splits)
    from Cons.prems(1) Some obtain r wa rest where
      one: "analyze_ticker yf qs df start s w = (Inr r, wa)"
      and more: "analyze_loop yf qs df start ts wa = (Inr rest, w')"
      and tbl: "tbl = r # rest"
      by (auto split: prod.splits sum.splits)
    show ?thesis
    proof (cases "row = r")
      case True
      with one ts show ?thesis by auto
    next
      case False
      with tbl Cons.prems(2) have "row \<in> set rest" by simp
      from Cons.IH[OF more this] show ?thesis by auto
    qed
  qed
qed


lemma analyze_dashboard_cases:
  assumes "analyze_ticker_dashboard yf qs h a start w = (Inr tbl, h', w')"
  shows "(frame_empty (h ! a) \<and> tbl = []) \<or>
         (\<not> frame_empty (h ! a) \<and> ''underlying_ticker'' \<in> set (columns (h ! a)) \<and>
          (\<exists>ts. sorted_tickers (unique_vals (map underlying_ticker (rows (h ! a)))) = Inr ts
                \<and> analyze_loop yf qs (h ! a) start ts w = (Inr tbl, w')))"
  using assms
  by (auto simp: analyze_ticker_dashboard_def Let_def split: if_splits sum.splits prod.splits)

lemma analyze_dashboard_row:
  assumes "analyze_ticker_dashboard yf qs h a start w = (Inr tbl, h', w')" and "row \<in> set tbl"
  shows "\<exists>w0 w1. analyze_ticker yf qs (h ! a) start (Ticker row) w0 = (Inr row, w1)"
proof -
  from analyze_dashboard_cases[OF assms(1)] assms(2) obtain ts where
    "analyze_loop yf qs (h ! a) start ts w = (Inr tbl, w')" by auto
  from analyze_loop_rows[OF this assms(2)] obtain t w0 w1 where
    one: "analyze_ticker yf qs (h ! a) start t w0 = (Inr row, w1)" by blast
  from analyze_ticker_fields(1)[OF one] one show ?thesis by blast
qed

lemma unique_vals_set [simp]: "set (unique_vals xs) = set xs"
  by (simp add: unique_vals_def)

lemma unique_vals_distinct [simp]: "distinct (unique_vals xs)"
  by (simp add: unique_vals_def)

lemma sort_unique_vals: "sort (unique_vals xs) = sort (remdups xs)"
  by (rule sorted_distinct_set_unique) simp_all

lemma sorted_tickers_Inr: "sorted_tickers u = Inr ts \<Longrightarrow> ts = sort u"
  by (auto simp: sorted_tickers_def split: if_splits)

lemma analyze_dashboard_loop:
  assumes "analyze_ticker_dashboard yf qs h a start w = (Inr tbl, h', w')"
      and "\<not> frame_empty (h ! a)"
  shows "analyze_loop yf qs (h ! a) start (sort (remdups (map underlying_ticker (rows (h ! a))))) w
           = (Inr tbl, w')"
proof -
  from analyze_dashboard_cases[OF assms(1)] assms(2) obtain ts where
    ts: "sorted_tickers (unique_vals (map underlying_ticker (rows (h ! a)))) = Inr ts"
    and loop: "analyze_loop yf qs (h ! a) start ts w = (Inr tbl, w')" by auto
  from sorted_tickers_Inr[OF ts] have "ts = sort (remdups (map underlying_ticker (rows (h ! a))))"
    by (simp add: sort_unique_vals)
  with loop show ?thesis by simp
qed

lemma analyze_dashboard_row_of_input:
  assumes "analyze_ticker_dashboard yf qs h a start w = (Inr tbl, h', w')" and "row \<in> set tbl"
  shows "rows_of_ticker (h ! a) (Ticker row) \<noteq> []"
proof -
  from analyze_dashboard_cases[OF assms(1)] assms(2) have ne: "\<not> frame_empty (h ! a)" by auto
  from analyze_loop_rows[OF analyze_dashboard_loop[OF assms(1) ne] assms(2)] obtain t w0 w1 where
    t: "Some t \<in> set (map underlying_ticker (rows (h ! a)))"
    and one: "analyze_ticker yf qs (h ! a) start t w0 = (Inr row, w1)" by auto
  from analyze_ticker_fields(1)[OF one] t obtain r where
    "r \<in> set (rows (h ! a))" "underlying_ticker r = Some (Ticker row)" by auto
  then have "r \<in> set (rows_of_ticker (h ! a) (Ticker row))" by (simp add: rows_of_ticker_def)
  then show ?thesis by auto
qed

text \<open>
  C1. In every row that \<open>analyze_ticker_dashboard\<close> produces, when the capitalization
  resolved for the row's ticker is missing or not positive, that value is what the row
  reports and both normalized scores are exactly 0: the division is not evaluated.
\<close>

theorem normalized_scores_zero_without_market_cap:
  assumes "analyze_ticker_dashboard yf qs h a start w = (Inr tbl, h', w')"
      and "row \<in> set tbl"
      and "market_cap_to_use_for_calc qs (h ! a) (rows_of_ticker (h ! a) (Ticker row)) = Inr m"
      and "m = None \<or> (\<exists>v. m = Some v \<and> v \<le> 0)"
  shows "Market_Cap row = m \<and> Bullish_MCap_Score row = 0 \<and> Bearish_MCap_Score row = 0"
proof -
  from analyze_dashboard_row[OF assms(1,2)] obtain w0 w1 where
    one: "analyze_ticker yf qs (h ! a) start (Ticker row) w0 = (Inr row, w1)" by blast
  from analyze_ticker_fields(2)[OF one] assms(3) have m: "Market_Cap row = m" by simp
  from assms(4) have "mcap_val_for_calc m = 0" by (auto simp: mcap_val_for_calc_def)
  with analyze_ticker_fields(8,9)[OF one] m show ?thesis by (simp add: mcap_score_def)
qed

lemma analyze_frame_no_cap: "analyze_ticker_dashboard provider_down stable_argsort [frame_no_cap] 0 0 []
   = (Inr [\<lparr>Ticker = ''AAPL'', Market_Cap = None, Current_Price = None,
          Price_at_Period_Start = NaN, Price_Change_Pct = NaN,
          Total_Activity_Prem = 500, Total_Call_Vol_Prem = 500, Total_Put_Vol_Prem = 0,
          Bullish_Prem = 500, Bearish_Prem = 0, Bullish_MCap_Score = 0, Bearish_MCap_Score = 0\<rparr>],
      [frame_no_cap],
      [FastInfo ''AAPL'', Sleep 15, FastInfo ''AAPL'', HistoryFrom ''AAPL'' 0])"
  by code_simp

lemma market_cap_frame_no_cap:
  "market_cap_to_use_for_calc stable_argsort frame_no_cap (rows_of_ticker frame_no_cap ''AAPL'') = Inr None"
  by code_simp

theorem normalized_scores_zero_without_market_cap_witness:
  "(case fst (analyze_ticker_dashboard provider_down stable_argsort [frame_no_cap] 0 0 []) of
      Inr [row] \<Rightarrow> Ticker row = ''AAPL'' \<and> Bullish_Prem row = 500
                    \<and> market_cap_to_use_for_calc stable_argsort frame_no_cap (rows_of_ticker frame_no_cap ''AAPL'') = Inr None
                    \<and> Market_Cap row = None \<and> Bullish_MCap_Score row = 0 \<and> Bearish_MCap_Score row = 0
    | _ \<Rightarrow> False)"
  using normalized_scores_zero_without_market_cap
          [OF analyze_frame_no_cap, of _ None]
  by (simp add: analyze_frame_no_cap market_cap_frame_no_cap)

subsection \<open>The capitalization used by the analysis\<close>

lemma sorted_key_last: "sorted (map k xs) \<Longrightarrow> x \<in> set xs \<Longrightarrow> k x \<le> k (last xs)"
  by (induction xs) auto

lemma sorts_stable_argsort: "sorts stable_argsort"
  by (simp add: sorts_def stable_argsort_def)

lemma sorts_facts:
  assumes "sorts qs"
  shows "distinct (qs ks)" and "set (qs ks) = {0 ..< length ks}"
    and "sorted (map (\<lambda>i. ks ! i) (qs ks))"
  using assms unfolding sorts_def by blast+


text \<open>The sorted frame as the rows picked by the reversed indexer, then the undated rows.\<close>

lemma sort_values_unfold:
  assumes "sorts qs"
    and "N = rev (filter (\<lambda>r. data_date r \<noteq> None) rs)"
    and "ks = map (\<lambda>r. case data_date r of None \<Rightarrow> 0 | Some d \<Rightarrow> d) N"
  shows "sort_values_data_date_desc qs rs
           = map (\<lambda>i. N ! i) (rev (qs ks)) @ filter (\<lambda>r. data_date r = None) rs"
proof -
  have len: "length ks = length N" by (simp add: assms(3))
  have "\<forall>i \<in> set (rev (qs ks)). i < length N"
    using sorts_facts(2)[OF assms(1), of ks] len by simp
  then have "filter (\<lambda>i. i < length N) (rev (qs ks)) = rev (qs ks)"
    by (simp only: filter_True)
  then show ?thesis
    unfolding sort_values_data_date_desc_def Let_def assms(2)[symmetric] assms(3)[symmetric]
    by (simp only:)
qed


lemma sort_values_head:
  assumes "sorts qs" and "sort_values_data_date_desc qs rs = r # rest"
  shows "r \<in> set rs
         \<and> (\<forall>r' \<in> set rs. case data_date r' of
                                None \<Rightarrow> True
                              | Some d' \<Rightarrow> (case data_date r of None \<Rightarrow> False | Some d \<Rightarrow> d' \<le> d))"
proof -
  define k where "k = (\<lambda>r::trade. case data_date r of None \<Rightarrow> (0::int) | Some d \<Rightarrow> d)"
  define N where "N = rev (filter (\<lambda>r. data_date r \<noteq> None) rs)"
  define ks where "ks = map (\<lambda>r. case data_date r of None \<Rightarrow> 0 | Some d \<Rightarrow> d) N"
  define ix where "ix = qs ks"
  have len: "length ks = length N" by (simp add: ks_def)
  have ix: "set ix = {0 ..< length N}"
    using sorts_facts(2)[OF assms(1), of ks] len by (simp add: ix_def)
  have srt: "sorted (map (\<lambda>i. ks ! i) ix)"
    using sorts_facts(3)[OF assms(1), of ks] by (simp add: ix_def)
  have setN: "set N = {r \<in> set rs. data_date r \<noteq> None}" by (auto simp: N_def)
  have res: "map (\<lambda>i. N ! i) (rev ix) @ filter (\<lambda>r. data_date r = None) rs = r # rest"
    using sort_values_unfold[OF assms(1) N_def ks_def] assms(2) by (simp only: ix_def)
  show ?thesis
  proof (cases "N = []")
    case True
    with setN have allnone: "\<forall>r' \<in> set rs. data_date r' = None" by auto
    from True ix have "ix = []" by simp
    with res have "r # rest = filter (\<lambda>r. data_date r = None) rs" by simp
    then have "r \<in> set (filter (\<lambda>r. data_date r = None) rs)"
      by (metis list.set_intros(1))
    with allnone show ?thesis by auto
  next
    case False
    with ix have "ix \<noteq> []" by auto
    then obtain xs l where xl: "ix = xs @ [l]" by (cases ix rule: rev_cases) auto
    with res have r: "r = N ! l" by simp
    from xl ix have lt: "l < length N" by auto
    with r have "r \<in> set N" by simp
    with setN have rin: "r \<in> set rs" and "data_date r \<noteq> None" by auto
    then obtain d where d: "data_date r = Some d" by auto
    have "case data_date r' of None \<Rightarrow> True
            | Some d' \<Rightarrow> (case data_date r of None \<Rightarrow> False | Some d \<Rightarrow> d' \<le> d)"
      if r': "r' \<in> set rs" for r'
    proof (cases "data_date r'")
      case None
      then show ?thesis by simp
    next
      case (Some d')
      with r' setN have "r' \<in> set N" by simp
      then obtain j where j: "j < length N" "N ! j = r'"
        by (auto simp: in_set_conv_nth)
      with ix have "j \<in> set ix" by simp
      from sorted_key_last[OF srt this] xl have "ks ! j \<le> ks ! l" by simp
      with j lt r have "k r' \<le> k r" by (simp add: ks_def k_def)
      with Some d show ?thesis by (simp add: k_def)
    qed
    with rin show ?thesis by blast
  qed
qed

lemma price_attempt_ignores_info:
  "price_attempt (yf\<lparr>info_market_cap := live\<rparr>) s w = price_attempt yf s w"
  by (auto simp: price_attempt_def Let_def split: reply.splits option.splits list.splits)

lemma price_attempts_ignores_info:
  "price_attempts (yf\<lparr>info_market_cap := live\<rparr>) s as w = price_attempts yf s as w"
  by (induction as arbitrary: w)
     (auto simp: price_attempt_ignores_info split: prod.splits attempt_result.splits)

lemma analyze_ticker_ignores_info:
  "analyze_ticker (yf\<lparr>info_market_cap := live\<rparr>) qs df start t w = analyze_ticker yf qs df start t w"
proof -
  have "price_history (yf\<lparr>info_market_cap := live\<rparr>) t start c w' = price_history yf t start c w'"
    for c w'
    by (simp add: price_history_def)
  then show ?thesis
    by (auto simp: analyze_ticker_def get_current_price_def price_attempts_ignores_info Let_def
        split: prod.splits sum.splits)
qed

lemma analyze_loop_ignores_info:
  "analyze_loop (yf\<lparr>info_market_cap := live\<rparr>) qs df start ts w = analyze_loop yf qs df start ts w"
  by (induction ts arbitrary: w)
     (auto simp: analyze_ticker_ignores_info split: prod.splits sum.splits option.splits)

lemma analyze_dashboard_ignores_info:
  "analyze_ticker_dashboard (yf\<lparr>info_market_cap := live\<rparr>) qs h a start w
     = analyze_ticker_dashboard yf qs h a start w"
  by (auto simp: analyze_ticker_dashboard_def analyze_loop_ignores_info Let_def
      split: sum.splits prod.splits)

lemma mcap_score_explicit:
  "mcap_score p (mcap_val_for_calc m)
     = (case m of None \<Rightarrow> 0 | Some v \<Rightarrow> if v > 0 then p / v * 100000 else 0)"
  by (simp add: mcap_score_def mcap_val_for_calc_def split: option.splits)

text \<open>
  C3. For every row of the analysis (the sort being one that sorts): when the frame has
  the column \<^verbatim>\<open>market_cap_ingested\<close>, the capitalization the row reports is the ingested
  value of a record whose ticker is the row's symbol and whose \<open>data_date\<close> is the latest
  among the records of that symbol (a record without a date counts as older than any
  dated one); the value stays missing when that record has none. Each score is the
  row's bullish or bearish premium divided by exactly that value and multiplied by
  100000, and 0 when the value is missing or not positive. The live capitalization of
  the provider plays no part: whatever \<^verbatim>\<open>.info\<close> would answer, the analysis is the same.
\<close>

theorem market_cap_is_latest_ingested:
  assumes "sorts qs"
      and "analyze_ticker_dashboard yf qs h a start w = (Inr tbl, h', w')"
      and "row \<in> set tbl"
  shows "(if ''market_cap_ingested'' \<in> set (columns (h ! a))
          then \<exists>r \<in> set (rows (h ! a)).
                 underlying_ticker r = Some (Ticker row)
                 \<and> Market_Cap row = market_cap_ingested r
                 \<and> (\<forall>r' \<in> set (rows (h ! a)).
                       underlying_ticker r' = Some (Ticker row) \<longrightarrow>
                       (case data_date r' of
                          None \<Rightarrow> True
                        | Some d' \<Rightarrow> (case data_date r of None \<Rightarrow> False | Some d \<Rightarrow> d' \<le> d)))
          else Market_Cap row = None)
       \<and> Bullish_MCap_Score row
           = (case Market_Cap row of
                None \<Rightarrow> 0
              | Some v \<Rightarrow> if v > 0 then Bullish_Prem row / v * 100000 else 0)
       \<and> Bearish_MCap_Score row
           = (case Market_Cap row of
                None \<Rightarrow> 0
              | Some v \<Rightarrow> if v > 0 then Bearish_Prem row / v * 100000 else 0)
       \<and> (\<forall>live. analyze_ticker_dashboard (yf\<lparr>info_market_cap := live\<rparr>) qs h a start w
                   = analyze_ticker_dashboard yf qs h a start w)"
proof -
  let ?tdf = "rows_of_ticker (h ! a) (Ticker row)"
  from analyze_dashboard_row[OF assms(2,3)] obtain w0 w1 where
    one: "analyze_ticker yf qs (h ! a) start (Ticker row) w0 = (Inr row, w1)" by blast
  note f = analyze_ticker_fields[OF one]
  have ne: "?tdf \<noteq> []" by (rule analyze_dashboard_row_of_input[OF assms(2,3)])
  have tdf: "set ?tdf = {r \<in> set (rows (h ! a)). underlying_ticker r = Some (Ticker row)}"
    by (auto simp: rows_of_ticker_def)
  have cap: "if ''market_cap_ingested'' \<in> set (columns (h ! a))
          then \<exists>r \<in> set (rows (h ! a)).
                 underlying_ticker r = Some (Ticker row)
                 \<and> Market_Cap row = market_cap_ingested r
                 \<and> (\<forall>r' \<in> set (rows (h ! a)).
                       underlying_ticker r' = Some (Ticker row) \<longrightarrow>
                       (case data_date r' of
                          None \<Rightarrow> True
                        | Some d' \<Rightarrow> (case data_date r of None \<Rightarrow> False | Some d \<Rightarrow> d' \<le> d)))
          else Market_Cap row = None"
  proof (cases "''market_cap_ingested'' \<in> set (columns (h ! a))")
    case False
    with f(2) show ?thesis by (simp add: market_cap_to_use_for_calc_def)
  next
    case True
    with f(2) ne obtain r rest where
      srt: "sort_values_data_date_desc qs ?tdf = r # rest"
      and m: "Market_Cap row = market_cap_ingested r"
      by (auto simp: market_cap_to_use_for_calc_def split: if_splits list.splits)
    from sort_values_head[OF assms(1) srt]
    have rin: "r \<in> set ?tdf"
      and latest: "\<forall>r' \<in> set ?tdf. case data_date r' of
                                None \<Rightarrow> True
                              | Some d' \<Rightarrow> (case data_date r of None \<Rightarrow> False | Some d \<Rightarrow> d' \<le> d)"
      by blast+
    from rin tdf have r1: "r \<in> set (rows (h ! a))" and r2: "underlying_ticker r = Some (Ticker row)"
      by auto
    from latest tdf
    have r3: "\<forall>r' \<in> set (rows (h ! a)).
                       underlying_ticker r' = Some (Ticker row) \<longrightarrow>
                       (case data_date r' of
                          None \<Rightarrow> True
                        | Some d' \<Rightarrow> (case data_date r of None \<Rightarrow> False | Some d \<Rightarrow> d' \<le> d))"
      by blast
    from r1 r2 m r3 have "\<exists>r \<in> set (rows (h ! a)).
                 underlying_ticker r = Some (Ticker row)
                 \<and> Market_Cap row = market_cap_ingested r
                 \<and> (\<forall>r' \<in> set (rows (h ! a)).
                       underlying_ticker r' = Some (Ticker row) \<longrightarrow>
                       (case data_date r' of
                          None \<Rightarrow> True
                        | Some d' \<Rightarrow> (case data_date r of None \<Rightarrow> False | Some d \<Rightarrow> d' \<le> d)))"
      by blast
    with True show ?thesis by (simp only: if_True)
  qed
  have s1: "Bullish_MCap_Score row
           = (case Market_Cap row of
                None \<Rightarrow> 0
              | Some v \<Rightarrow> if v > 0 then Bullish_Prem row / v * 100000 else 0)"
    unfolding f(8) by (rule mcap_score_explicit)
  have s2: "Bearish_MCap_Score row
           = (case Market_Cap row of
                None \<Rightarrow> 0
              | Some v \<Rightarrow> if v > 0 then Bearish_Prem row / v * 100000 else 0)"
    unfolding f(9) by (rule mcap_score_explicit)
  have live: "\<forall>live. analyze_ticker_dashboard (yf\<lparr>info_market_cap := live\<rparr>) qs h a start w
                   = analyze_ticker_dashboard yf qs h a start w"
    by (simp only: analyze_dashboard_ignores_info simp_thms)
  from cap s1 s2 live show ?thesis by (intro conjI)
qed

lemma analyze_frame_two_tickers:
  "analyze_ticker_dashboard provider_down stable_argsort [frame_two_tickers] 0 0 []
   = (Inr [\<lparr>Ticker = ''AAPL'', Market_Cap = Some 999, Current_Price = None,
          Price_at_Period_Start = NaN, Price_Change_Pct = NaN,
          Total_Activity_Prem = 40, Total_Call_Vol_Prem = 40, Total_Put_Vol_Prem = 0,
          Bullish_Prem = 40, Bearish_Prem = 0,
          Bullish_MCap_Score = 4000000 / 999, Bearish_MCap_Score = 0\<rparr>,
         \<lparr>Ticker = ''NVDA'', Market_Cap = Some 300, Current_Price = None,
          Price_at_Period_Start = NaN, Price_Change_Pct = NaN,
          Total_Activity_Prem = 3000, Total_Call_Vol_Prem = 2000, Total_Put_Vol_Prem = 1000,
          Bullish_Prem = 2000, Bearish_Prem = 1000,
          Bullish_MCap_Score = 2000000 / 3, Bearish_MCap_Score = 1000000 / 3\<rparr>],
      [frame_two_tickers],
      [FastInfo ''AAPL'', Sleep 15, FastInfo ''AAPL'', HistoryFrom ''AAPL'' 0,
       FastInfo ''NVDA'', Sleep 15, FastInfo ''NVDA'', HistoryFrom ''NVDA'' 0])"
  by code_simp

lemma frame_two_tickers_latest:
  "filter (\<lambda>r. underlying_ticker r = Some ''NVDA'' \<and> market_cap_ingested r = Some 300)
     (rows frame_two_tickers)
     = [mk_trade 3 ''NVDA'' (Timestamp 0) ''CALL'' ''Bullish'' (Some 1000) (Some 300)]"
  "map (\<lambda>r. (underlying_ticker r, data_date r, market_cap_ingested r)) (rows frame_two_tickers)
     = [(Some ''NVDA'', Some 1, Some 100), (Some ''NVDA'', Some 3, Some 300),
        (Some ''AAPL'', Some 5, Some 999), (Some ''NVDA'', Some 2, Some 200)]"
  by code_simp+

theorem market_cap_is_latest_ingested_witness:
  "sorts stable_argsort
   \<and> map (\<lambda>r. (underlying_ticker r, data_date r, market_cap_ingested r)) (rows frame_two_tickers)
       = [(Some ''NVDA'', Some 1, Some 100), (Some ''NVDA'', Some 3, Some 300),
          (Some ''AAPL'', Some 5, Some 999), (Some ''NVDA'', Some 2, Some 200)]
   \<and> map (\<lambda>row. (Ticker row, Market_Cap row, Bullish_Prem row, Bullish_MCap_Score row,
                   Bearish_Prem row, Bearish_MCap_Score row))
        (projr (fst (analyze_ticker_dashboard provider_down stable_argsort
                       [frame_two_tickers] 0 0 [])))
       = [(''AAPL'', Some 999, 40, 4000000 / 999, 0, 0),
          (''NVDA'', Some 300, 2000, 2000000 / 3, 1000, 1000000 / 3)]
   \<and> (\<exists>r \<in> set (rows frame_two_tickers).
         underlying_ticker r = Some ''NVDA'' \<and> market_cap_ingested r = Some 300
         \<and> data_date r = Some 3)"
proof -
  have rows: "map (\<lambda>row. (Ticker row, Market_Cap row, Bullish_Prem row, Bullish_MCap_Score row,
                   Bearish_Prem row, Bearish_MCap_Score row))
        (projr (fst (analyze_ticker_dashboard provider_down stable_argsort
                       [frame_two_tickers] 0 0 [])))
       = [(''AAPL'', Some 999, 40, 4000000 / 999, 0, 0),
          (''NVDA'', Some 300, 2000, 2000000 / 3, 1000, 1000000 / 3)]"
    by (simp add: analyze_frame_two_tickers)
  have nvda: "\<lparr>Ticker = ''NVDA'', Market_Cap = Some 300, Current_Price = None,
          Price_at_Period_Start = NaN, Price_Change_Pct = NaN,
          Total_Activity_Prem = 3000, Total_Call_Vol_Prem = 2000, Total_Put_Vol_Prem = 1000,
          Bullish_Prem = 2000, Bearish_Prem = 1000,
          Bullish_MCap_Score = 2000000 / 3, Bearish_MCap_Score = 1000000 / 3\<rparr>
        \<in> set [\<lparr>Ticker = ''AAPL'', Market_Cap = Some 999, Current_Price = None,
          Price_at_Period_Start = NaN, Price_Change_Pct = NaN,
          Total_Activity_Prem = 40, Total_Call_Vol_Prem = 40, Total_Put_Vol_Prem = 0,
          Bullish_Prem = 40, Bearish_Prem = 0,
          Bullish_MCap_Score = 4000000 / 999, Bearish_MCap_Score = 0\<rparr>,
         \<lparr>Ticker = ''NVDA'', Market_Cap = Some 300, Current_Price = None,
          Price_at_Period_Start = NaN, Price_Change_Pct = NaN,
          Total_Activity_Prem = 3000, Total_Call_Vol_Prem = 2000, Total_Put_Vol_Prem = 1000,
          Bullish_Prem = 2000, Bearish_Prem = 1000,
          Bullish_MCap_Score = 2000000 / 3, Bearish_MCap_Score = 1000000 / 3\<rparr>]"
    by simp
  have latest: "\<exists>r \<in> set (rows frame_two_tickers).
         underlying_ticker r = Some ''NVDA'' \<and> market_cap_ingested r = Some 300
         \<and> data_date r = Some 3"
    by code_simp
  note main = market_cap_is_latest_ingested
               [OF sorts_stable_argsort analyze_frame_two_tickers nvda]
  from main sorts_stable_argsort frame_two_tickers_latest(2) rows latest show ?thesis by blast
qed

subsection \<open>The tickers of the analysis\<close>

lemma premium_sum_explicit:
  "premium_sum (filter P (dropna_premium rs)) = sum_list (map premium_or_zero (filter P rs))"
  by (induction rs) (auto simp: premium_sum_def nansum_def dropna_premium_def)

lemma premium_sum_dropna:
  "premium_sum (dropna_premium rs) = sum_list (map premium_or_zero rs)"
  using premium_sum_explicit[of "\<lambda>r. True" rs] by simp


lemma Some_mono: "x \<le> y \<Longrightarrow> Some x \<le> Some y"
  by simp










lemma analyze_row_sums:
  assumes "analyze_ticker_dashboard yf qs h a start w = (Inr tbl, h', w')" and "row \<in> set tbl"
  shows "(''premium_usd'' \<in> set (columns (h ! a)) \<longrightarrow>
            Total_Activity_Prem row
              = sum_list (map premium_or_zero
                  (filter (\<lambda>r. underlying_ticker r = Some (Ticker row)) (rows (h ! a)))))
       \<and> (''premium_usd'' \<in> set (columns (h ! a)) \<and> ''sentiment'' \<in> set (columns (h ! a)) \<longrightarrow>
            Bullish_Prem row
              = sum_list (map premium_or_zero
                  (filter (\<lambda>r. underlying_ticker r = Some (Ticker row)
                              \<and> str_upper (str_strip (case sentiment r of
                                                         None \<Rightarrow> ''UNKNOWN'' | Some s \<Rightarrow> s))
                                  = ''BULLISH'')
                     (rows (h ! a))))
          \<and> Bearish_Prem row
              = sum_list (map premium_or_zero
                  (filter (\<lambda>r. underlying_ticker r = Some (Ticker row)
                              \<and> str_upper (str_strip (case sentiment r of
                                                         None \<Rightarrow> ''UNKNOWN'' | Some s \<Rightarrow> s))
                                  = ''BEARISH'')
                     (rows (h ! a)))))
       \<and> (''premium_usd'' \<in> set (columns (h ! a)) \<and> ''option_type'' \<in> set (columns (h ! a)) \<longrightarrow>
            Total_Call_Vol_Prem row
              = sum_list (map premium_or_zero
                  (filter (\<lambda>r. underlying_ticker r = Some (Ticker row)
                              \<and> map_option str_upper (option_type r) = Some ''CALL'')
                     (rows (h ! a))))
          \<and> Total_Put_Vol_Prem row
              = sum_list (map premium_or_zero
                  (filter (\<lambda>r. underlying_ticker r = Some (Ticker row)
                              \<and> map_option str_upper (option_type r) = Some ''PUT'')
                     (rows (h ! a)))))"
proof -
  from analyze_dashboard_row[OF assms] obtain w0 w1 where
    one: "analyze_ticker yf qs (h ! a) start (Ticker row) w0 = (Inr row, w1)" by blast
  note f = analyze_ticker_fields[OF one]
  show ?thesis
    unfolding f(3) f(4) f(5) f(6) f(7)
    by (simp add: total_premium_for_ticker_def sentiment_premium_def option_type_premium_def
        premium_sum_explicit premium_sum_dropna rows_of_ticker_def sentiment_series_def
        option_type_upper_def)
qed







subsection \<open>The expiration summary computes the stated table\<close>

lemma modify_last: "modify (h @ [f]) (length h) g = h @ [g f]"
  by (simp add: modify_def)

lemma coerce_kept:
  "filter (\<lambda>r. expiration_date r \<noteq> NaT \<and> premium_usd r \<noteq> None)
     (map (\<lambda>r. r\<lparr>expiration_date := to_datetime_coerce (expiration_date r)\<rparr>) rs)
   = filter kept rs"
proof (induction rs)
  case Nil
  show ?case by simp
next
  case (Cons r rs)
  show ?case
    using Cons.IH by (cases "expiration_date r") (simp_all add: kept_def)
qed

lemma create_working_copy:
  assumes "\<not> frame_empty (h ! a)"
      and "list_all (\<lambda>col. col \<in> set (columns (h ! a))) required_columns"
  shows "\<exists>f. create_expiration_summary_table h a today =
     (if kept_rows (h ! a) = [] then []
      else sort_key Days_to_Expiry
             (groupby_agg (map (derive (today * ns_per_day)) (kept_rows (h ! a)))),
      h @ [f])"
proof -
  from assms(1) have cols: "columns (h ! a) \<noteq> []" by (simp add: frame_empty_def)
  from assms(2) have exp_col: "''expiration_date'' \<in> set (columns (h ! a))"
    by (simp add: required_columns_def)
  show ?thesis
  proof (cases "kept_rows (h ! a) = []")
    case True
    with assms cols exp_col show ?thesis
      by (simp add: create_expiration_summary_table_def Let_def modify_last assign_def
          dropna_expiration_premium_def coerce_kept kept_rows_def frame_empty_def
          del: not_None_eq)
  next
    case False
    with assms cols exp_col show ?thesis
      by (simp add: create_expiration_summary_table_def Let_def modify_last assign_def
          dropna_expiration_premium_def coerce_kept kept_rows_def frame_empty_def
          derive_def[abs_def] comp_def del: not_None_eq)
  qed
qed


lemma group_key_derive:
  "group_key (derive td r) = map_option (key_of td) (timestamp_of (expiration_date r))"
  by (cases "expiration_date r") (simp_all add: group_key_def derive_def dt_days_def key_of_def)

lemma map_filter_map_option:
  "List.map_filter (\<lambda>x. map_option g (f x)) xs = map g (List.map_filter f xs)"
  by (induction xs) (auto simp: List.map_filter_simps split: option.splits)

lemma key_of_mono: "t \<le> t' \<Longrightarrow> key_of td t \<le> key_of td t'"
  by (cases "t = t'") (auto simp: key_of_def less_eq_prod_def)

lemma key_of_inj: "inj (key_of td)"
  by (auto simp: inj_on_def key_of_def)

lemma sort_remdups_key_of:
  "sort (remdups (map (key_of td) xs)) = map (key_of td) (sort (remdups xs))"
proof (rule sorted_distinct_set_unique)
  show "sorted (sort (remdups (map (key_of td) xs)))" by simp
  show "distinct (sort (remdups (map (key_of td) xs)))" by simp
  have "sorted (sort (remdups xs))" by simp
  then show "sorted (map (key_of td) (sort (remdups xs)))"
    by (simp add: sorted_map sorted_wrt_mono_rel[of _ "(\<le>)"] key_of_mono)
  show "distinct (map (key_of td) (sort (remdups xs)))"
    by (simp add: distinct_map inj_on_subset[OF key_of_inj])
  show "set (sort (remdups (map (key_of td) xs))) = set (map (key_of td) (sort (remdups xs)))"
    by simp
qed

lemma group_keys_derive:
  "group_keys (map (derive (today * ns_per_day)) (kept_rows df))
     = map (key_of (today * ns_per_day)) (expiration_dates df)"
  by (simp add: group_keys_def expiration_dates_def map_filter_map group_key_derive
      map_filter_map_option sort_remdups_key_of)

lemma group_members_derive:
  "filter (\<lambda>r. group_key r = Some (key_of td t)) (map (derive td) rs)
     = map (derive td) (filter (\<lambda>r. expiration_date r = Timestamp t) rs)"
proof (induction rs)
  case Nil
  show ?case by simp
next
  case (Cons r rs)
  have "group_key (derive td r) = Some (key_of td t) \<longleftrightarrow> expiration_date r = Timestamp t"
    by (cases "expiration_date r") (auto simp: group_key_derive key_of_def)
  with Cons.IH show ?case by simp
qed

lemma nansum_np_where:
  "nansum (map (\<lambda>r. np_where (c r) label (premium_usd r)) rs)
     = premium_sum (filter (\<lambda>r. c r = Some label) rs)"
  by (induction rs) (simp_all add: nansum_def premium_sum_def np_where_def)

lemma agg_derive:
  "agg (map (derive (today * ns_per_day)) (kept_rows df)) (key_of (today * ns_per_day) t)
     = summary_of df today t"
proof -
  let ?g = "expiring df t"
  have members: "filter (\<lambda>r. group_key r = Some (key_of (today * ns_per_day) t))
                   (map (derive (today * ns_per_day)) (kept_rows df))
                 = map (derive (today * ns_per_day)) ?g"
    by (simp add: group_members_derive expiring_def)
  have 1: "map premium_usd (map (derive td) rs) = map premium_usd rs" for td rs
    by (simp add: derive_def)
  have 2: "List.map_filter underlying_ticker (map (derive td) rs)
             = List.map_filter underlying_ticker rs" for td rs
    by (simp add: map_filter_map derive_def)
  have 3: "map call_premium_exp (map (derive td) rs)
             = map (\<lambda>r. np_where (option_type r) ''CALL'' (premium_usd r)) rs" for td rs
    by (simp add: derive_def)
  have 4: "map put_premium_exp (map (derive td) rs)
             = map (\<lambda>r. np_where (option_type r) ''PUT'' (premium_usd r)) rs" for td rs
    by (simp add: derive_def)
  have 5: "map bullish_premium_exp (map (derive td) rs)
             = map (\<lambda>r. np_where (sentiment r) ''Bullish'' (premium_usd r)) rs" for td rs
    by (simp add: derive_def)
  have 6: "map bearish_premium_exp (map (derive td) rs)
             = map (\<lambda>r. np_where (sentiment r) ''Bearish'' (premium_usd r)) rs" for td rs
    by (simp add: derive_def)
  show ?thesis
    unfolding agg_def summary_of_def Let_def members 1 2 3 4 5 6 nansum_np_where
    by (simp add: key_of_def days_to_expiry_def premium_sum_def)
qed

lemma groupby_agg_derive:
  "groupby_agg (map (derive (today * ns_per_day)) (kept_rows df))
     = map (summary_of df today) (expiration_dates df)"
  by (simp add: groupby_agg_def group_keys_derive agg_derive)

lemma create_table:
  "fst (create_expiration_summary_table h a today) = expiration_table (h ! a) today"
proof (cases "frame_empty (h ! a) \<or> \<not> list_all (\<lambda>col. col \<in> set (columns (h ! a))) required_columns")
  case True
  then show ?thesis
    by (auto simp: create_expiration_summary_table_def expiration_table_def Let_def)
next
  case False
  then have ne: "\<not> frame_empty (h ! a)"
    and cols: "list_all (\<lambda>col. col \<in> set (columns (h ! a))) required_columns" by auto
  from create_working_copy[OF ne cols, of today] obtain f where
    c: "create_expiration_summary_table h a today =
     (if kept_rows (h ! a) = [] then []
      else sort_key Days_to_Expiry
             (groupby_agg (map (derive (today * ns_per_day)) (kept_rows (h ! a)))),
      h @ [f])" by blast
  show ?thesis
  proof (cases "kept_rows (h ! a) = []")
    case True
    with c ne cols show ?thesis
      by (simp add: expiration_table_def expiration_dates_def List.map_filter_simps)
  next
    case False
    with c ne cols show ?thesis
      by (simp add: expiration_table_def groupby_agg_derive)
  qed
qed

lemma create_heap:
  "snd (create_expiration_summary_table h a today) = h
   \<or> (\<exists>f. snd (create_expiration_summary_table h a today) = h @ [f])"
proof (cases "frame_empty (h ! a) \<or> \<not> list_all (\<lambda>col. col \<in> set (columns (h ! a))) required_columns")
  case True
  then show ?thesis
    by (auto simp: create_expiration_summary_table_def Let_def)
next
  case False
  then have ne: "\<not> frame_empty (h ! a)"
    and cols: "list_all (\<lambda>col. col \<in> set (columns (h ! a))) required_columns" by auto
  from create_working_copy[OF ne cols, of today] show ?thesis by auto
qed

subsection \<open>Properties of the expiration summary and of the heap\<close>

lemma create_keeps_input:
  assumes "a < length h"
  shows "snd (create_expiration_summary_table h a today) ! a = h ! a"
    and "take (length h) (snd (create_expiration_summary_table h a today)) = h"
  using create_heap[of h a today] assms by (auto simp: nth_append)

text \<open>
  C6. Running the expiration summary a second time on the same frame object, in the
  heap the first run left and on the same current date, gives a table equal to the first
  one, row for row: the table is a function of the frame and the date alone. Its rows
  (\<open>expiration_summary\<close>) have no price field, and the routine takes no provider.
\<close>

theorem expiration_summary_idempotent:
  assumes "a < length h"
      and "create_expiration_summary_table h a today = (t1, h1)"
      and "create_expiration_summary_table h1 a today = (t2, h2)"
  shows "t1 = t2 \<and> t1 = expiration_table (h ! a) today"
proof -
  from create_keeps_input(1)[OF assms(1), of today] assms(2) have same: "h1 ! a = h ! a" by simp
  from create_table[of h a today] assms(2) have 1: "t1 = expiration_table (h ! a) today" by simp
  from create_table[of h1 a today] assms(3) have 2: "t2 = expiration_table (h1 ! a) today" by simp
  from 1 2 same show ?thesis by simp
qed

lemma kept_rows_filter: "kept_rows (df\<lparr>rows := filter kept (rows df)\<rparr>) = kept_rows df"
  by (simp add: kept_rows_def)

lemma kept_rows_Nil: "rows df = [] \<Longrightarrow> kept_rows df = []"
  by (simp add: kept_rows_def)

lemma expiration_table_kept:
  "expiration_table (df\<lparr>rows := filter kept (rows df)\<rparr>) today = expiration_table df today"
proof (cases "kept_rows df = []")
  case True
  then have "expiration_dates df = []" "expiration_dates (df\<lparr>rows := filter kept (rows df)\<rparr>) = []"
    by (simp_all add: expiration_dates_def kept_rows_filter List.map_filter_simps)
  then show ?thesis by (simp add: expiration_table_def)
next
  case False
  then have "rows df \<noteq> []" "filter kept (rows df) \<noteq> []"
    by (auto simp: kept_rows_def)
  then show ?thesis
    by (simp add: expiration_table_def frame_empty_def expiration_dates_def kept_rows_filter
        summary_of_def[abs_def] expiring_def)
qed

lemma expiration_table_dates:
  assumes "g \<in> set (expiration_table df today)"
  shows "g = summary_of df today (Expiration_Date g) \<and> Expiration_Date g \<in> set (expiration_dates df)"
proof -
  from assms obtain t where "t \<in> set (expiration_dates df)" "g = summary_of df today t"
    by (auto simp: expiration_table_def split: if_splits)
  then show ?thesis by (simp add: summary_of_def Let_def)
qed

lemma expiration_dates_kept:
  assumes "t \<in> set (expiration_dates df)"
  shows "\<exists>r \<in> set (rows df). kept r \<and> expiration_date r = Timestamp t"
proof -
  from assms obtain r where "r \<in> set (kept_rows df)" "timestamp_of (expiration_date r) = Some t"
    by (auto simp: expiration_dates_def List.map_filter_def)
  then show ?thesis by (cases "expiration_date r") (auto simp: kept_rows_def)
qed

text \<open>
  C7. A record whose expiration date does not parse (or is missing) or whose premium is
  missing is dropped before the grouping: the table is the one the routine computes after
  those records are removed from the input, and every group of the table is the
  expiration date of a record that was kept. The groups come out in ascending order of
  the days to expiry.
\<close>

theorem dropped_before_grouping_sorted_by_dte:
  assumes "a < length h"
      and "create_expiration_summary_table h a today = (tbl, h1)"
  shows "fst (create_expiration_summary_table
                (h[a := (h ! a)\<lparr>rows := filter kept (rows (h ! a))\<rparr>]) a today) = tbl
         \<and> (\<forall>g \<in> set tbl. \<exists>r \<in> set (rows (h ! a)).
                kept r \<and> expiration_date r = Timestamp (Expiration_Date g))
         \<and> sorted (map Days_to_Expiry tbl)"
proof -
  from create_table[of h a today] assms(2) have tbl: "tbl = expiration_table (h ! a) today" by simp
  have 1: "fst (create_expiration_summary_table
                (h[a := (h ! a)\<lparr>rows := filter kept (rows (h ! a))\<rparr>]) a today) = tbl"
    using assms(1) by (simp add: create_table tbl expiration_table_kept)
  have 2: "\<forall>g \<in> set tbl. \<exists>r \<in> set (rows (h ! a)).
                kept r \<and> expiration_date r = Timestamp (Expiration_Date g)"
    using expiration_table_dates expiration_dates_kept tbl by blast
  have 3: "sorted (map Days_to_Expiry tbl)"
    by (simp add: tbl expiration_table_def)
  from 1 2 3 show ?thesis by blast
qed

lemma analyze_heap: "fst (snd (analyze_ticker_dashboard yf qs h a start w)) = h"
  by (auto simp: analyze_ticker_dashboard_def Let_def split: sum.splits prod.splits)

text \<open>
  C10. Neither aggregation writes to its input. \<open>analyze_ticker_dashboard\<close> returns the
  heap it was given. \<open>create_expiration_summary_table\<close> leaves the frame at the input's
  address, and every object that existed, as they were: all its writes go to the copy it
  allocates.
\<close>

theorem aggregations_leave_input_unchanged:
  assumes "a < length h"
  shows "fst (snd (analyze_ticker_dashboard yf qs h a start w)) = h
         \<and> snd (create_expiration_summary_table h a today) ! a = h ! a
         \<and> take (length h) (snd (create_expiration_summary_table h a today)) = h"
  using create_keeps_input[OF assms] analyze_heap by simp


lemma expiration_table_frame_expirations:
  "expiration_table frame_expirations 0 =
     [\<lparr>Expiration_Date = 86400000000000, Days_to_Expiry = 1, Total_Premium = 700,
       Unique_Tickers = 2, Call_Premium = 0, Put_Premium = 500, Bullish_Premium = 0,
       Bearish_Premium = 200, Options_Count = 2\<rparr>,
      \<lparr>Expiration_Date = 259200000000005, Days_to_Expiry = 3, Total_Premium = 1000,
       Unique_Tickers = 1, Call_Premium = 1000, Put_Premium = 0, Bullish_Premium = 1000,
       Bearish_Premium = 0, Options_Count = 1\<rparr>]"
  by code_simp

theorem expiration_summary_idempotent_witness:
  "0 < length [frame_expirations]
   \<and> fst (create_expiration_summary_table [frame_expirations] 0 0)
       = fst (create_expiration_summary_table
                (snd (create_expiration_summary_table [frame_expirations] 0 0)) 0 0)
   \<and> map Total_Premium (fst (create_expiration_summary_table [frame_expirations] 0 0))
       = [700, 1000]"
proof -
  have valid: "0 < length [frame_expirations]" by simp
  have twice: "fst (create_expiration_summary_table [frame_expirations] 0 0)
       = fst (create_expiration_summary_table
                (snd (create_expiration_summary_table [frame_expirations] 0 0)) 0 0)
     \<and> fst (create_expiration_summary_table [frame_expirations] 0 0)
       = expiration_table ([frame_expirations] ! 0) 0"
    by (rule expiration_summary_idempotent[OF valid]) (rule prod.collapse[symmetric])+
  have "fst (create_expiration_summary_table [frame_expirations] 0 0)
       = expiration_table frame_expirations 0"
    using conjunct2[OF twice] by (simp only: nth_Cons_0)
  then have "map Total_Premium (fst (create_expiration_summary_table [frame_expirations] 0 0))
       = [700, 1000]"
    by (simp add: expiration_table_frame_expirations)
  with valid twice show ?thesis by blast
qed

lemma kept_frame_expirations: "length (filter kept (rows frame_expirations)) = 3"
  by code_simp

theorem dropped_before_grouping_sorted_by_dte_witness:
  "0 < length [frame_expirations]
   \<and> length (rows frame_expirations) = 5
   \<and> length (filter kept (rows frame_expirations)) = 3
   \<and> fst (create_expiration_summary_table
             ([frame_expirations]
                [0 := frame_expirations\<lparr>rows := filter kept (rows frame_expirations)\<rparr>]) 0 0)
       = fst (create_expiration_summary_table [frame_expirations] 0 0)
   \<and> map Days_to_Expiry (fst (create_expiration_summary_table [frame_expirations] 0 0)) = [1, 3]"
proof -
  have valid: "0 < length [frame_expirations]" by simp
  have n: "length (rows frame_expirations) = 5" by code_simp
  have main: "fst (create_expiration_summary_table
                ([frame_expirations]
                   [0 := ([frame_expirations] ! 0)
                           \<lparr>rows := filter kept (rows ([frame_expirations] ! 0))\<rparr>]) 0 0)
              = fst (create_expiration_summary_table [frame_expirations] 0 0)
         \<and> (\<forall>g \<in> set (fst (create_expiration_summary_table [frame_expirations] 0 0)).
              \<exists>r \<in> set (rows ([frame_expirations] ! 0)).
                kept r \<and> expiration_date r = Timestamp (Expiration_Date g))
         \<and> sorted (map Days_to_Expiry
                     (fst (create_expiration_summary_table [frame_expirations] 0 0)))"
    by (rule dropped_before_grouping_sorted_by_dte[OF valid]) (rule prod.collapse[symmetric])
  then have same: "fst (create_expiration_summary_table
             ([frame_expirations]
                [0 := frame_expirations\<lparr>rows := filter kept (rows frame_expirations)\<rparr>]) 0 0)
       = fst (create_expiration_summary_table [frame_expirations] 0 0)" by simp
  have dte: "map Days_to_Expiry (fst (create_expiration_summary_table [frame_expirations] 0 0))
       = [1, 3]"
    by (simp add: create_table expiration_table_frame_expirations)
  from valid n kept_frame_expirations same dte show ?thesis by blast
qed

lemma create_heap_frame_expirations:
  "length (snd (create_expiration_summary_table [frame_expirations] 0 0)) = 2"
  by code_simp

theorem aggregations_leave_input_unchanged_witness:
  "0 < length [frame_expirations]
   \<and> fst (snd (analyze_ticker_dashboard provider_down stable_argsort [frame_expirations] 0 0 []))
       = [frame_expirations]
   \<and> snd (create_expiration_summary_table [frame_expirations] 0 0) ! 0 = frame_expirations
   \<and> length (snd (create_expiration_summary_table [frame_expirations] 0 0)) = 2"
  using aggregations_leave_input_unchanged [of 0 "[frame_expirations]" provider_down stable_argsort 0 "[]" 0]
  by (simp add: create_heap_frame_expirations)

subsection \<open>How the two routines match option type and sentiment\<close>

lemma length_map_filter:
  "length (List.map_filter f xs) = length (filter (\<lambda>x. f x \<noteq> None) xs)"
  by (simp add: List.map_filter_def)

lemma summary_of_fields:
  assumes "g = summary_of df today t"
  shows "Total_Premium g = premium_sum (expiring df t)
          \<and> Options_Count g
              = length (filter (\<lambda>r. underlying_ticker r \<noteq> None) (expiring df t))
          \<and> Call_Premium g
              = premium_sum (filter (\<lambda>r. option_type r = Some ''CALL'') (expiring df t))
          \<and> Put_Premium g
              = premium_sum (filter (\<lambda>r. option_type r = Some ''PUT'') (expiring df t))
          \<and> Bullish_Premium g
              = premium_sum (filter (\<lambda>r. sentiment r = Some ''Bullish'') (expiring df t))
          \<and> Bearish_Premium g
              = premium_sum (filter (\<lambda>r. sentiment r = Some ''Bearish'') (expiring df t))"
  unfolding assms by (simp add: summary_of_def Let_def length_map_filter del: not_None_eq)

lemma premium_sum_or_zero: "premium_sum rs = sum_list (map premium_or_zero rs)"
  by (simp add: premium_sum_def nansum_def comp_def)

lemma expiring_explicit:
  "expiring df t
     = filter (\<lambda>r. expiration_date r = Timestamp t \<and> premium_usd r \<noteq> None) (rows df)"
proof -
  have "kept r \<and> expiration_date r = Timestamp t
          \<longleftrightarrow> expiration_date r = Timestamp t \<and> premium_usd r \<noteq> None" for r
    by (cases "expiration_date r") (auto simp: kept_def)
  then show ?thesis
    by (simp add: expiring_def kept_rows_def del: not_None_eq)
qed

lemma sum_with_premium:
  "sum_list (map premium_or_zero (filter (\<lambda>r. Q r \<and> premium_usd r \<noteq> None \<and> P r) rs))
     = sum_list (map premium_or_zero (filter (\<lambda>r. Q r \<and> P r) rs))"
  by (induction rs) auto

lemma summary_explicit:
  assumes "g \<in> set (fst (create_expiration_summary_table h a today))"
  shows "Total_Premium g
           = sum_list (map premium_or_zero
               (filter (\<lambda>r. expiration_date r = Timestamp (Expiration_Date g)) (rows (h ! a))))
       \<and> Options_Count g
           = length (filter (\<lambda>r. expiration_date r = Timestamp (Expiration_Date g)
                                \<and> premium_usd r \<noteq> None \<and> underlying_ticker r \<noteq> None)
                       (rows (h ! a)))
       \<and> Call_Premium g
           = sum_list (map premium_or_zero
               (filter (\<lambda>r. expiration_date r = Timestamp (Expiration_Date g)
                           \<and> option_type r = Some ''CALL'') (rows (h ! a))))
       \<and> Put_Premium g
           = sum_list (map premium_or_zero
               (filter (\<lambda>r. expiration_date r = Timestamp (Expiration_Date g)
                           \<and> option_type r = Some ''PUT'') (rows (h ! a))))
       \<and> Bullish_Premium g
           = sum_list (map premium_or_zero
               (filter (\<lambda>r. expiration_date r = Timestamp (Expiration_Date g)
                           \<and> sentiment r = Some ''Bullish'') (rows (h ! a))))
       \<and> Bearish_Premium g
           = sum_list (map premium_or_zero
               (filter (\<lambda>r. expiration_date r = Timestamp (Expiration_Date g)
                           \<and> sentiment r = Some ''Bearish'') (rows (h ! a))))"
proof -
  from assms have "g \<in> set (expiration_table (h ! a) today)" by (simp only: create_table)
  with expiration_table_dates
  have g: "g = summary_of (h ! a) today (Expiration_Date g)" by blast
  have tot: "sum_list (map premium_or_zero
               (filter (\<lambda>r. expiration_date r = Timestamp t \<and> premium_usd r \<noteq> None) rs))
             = sum_list (map premium_or_zero
               (filter (\<lambda>r. expiration_date r = Timestamp t) rs))" for t rs
    using sum_with_premium[of "\<lambda>r. expiration_date r = Timestamp t" "\<lambda>r. True" rs]
    by simp
  show ?thesis
    using summary_of_fields[OF g]
    by (simp add: premium_sum_or_zero expiring_explicit sum_with_premium tot conj_assoc
        del: not_None_eq)
qed

lemma analyze_row_sums_fst:
  assumes "fst (analyze_ticker_dashboard yf qs h a start w) = Inr tbl" and "row \<in> set tbl"
  shows "(''premium_usd'' \<in> set (columns (h ! a)) \<longrightarrow>
            Total_Activity_Prem row
              = sum_list (map premium_or_zero
                  (filter (\<lambda>r. underlying_ticker r = Some (Ticker row)) (rows (h ! a)))))
       \<and> (''premium_usd'' \<in> set (columns (h ! a)) \<and> ''sentiment'' \<in> set (columns (h ! a)) \<longrightarrow>
            Bullish_Prem row
              = sum_list (map premium_or_zero
                  (filter (\<lambda>r. underlying_ticker r = Some (Ticker row)
                              \<and> str_upper (str_strip (case sentiment r of
                                                         None \<Rightarrow> ''UNKNOWN'' | Some s \<Rightarrow> s))
                                  = ''BULLISH'')
                     (rows (h ! a))))
          \<and> Bearish_Prem row
              = sum_list (map premium_or_zero
                  (filter (\<lambda>r. underlying_ticker r = Some (Ticker row)
                              \<and> str_upper (str_strip (case sentiment r of
                                                         None \<Rightarrow> ''UNKNOWN'' | Some s \<Rightarrow> s))
                                  = ''BEARISH'')
                     (rows (h ! a)))))
       \<and> (''premium_usd'' \<in> set (columns (h ! a)) \<and> ''option_type'' \<in> set (columns (h ! a)) \<longrightarrow>
            Total_Call_Vol_Prem row
              = sum_list (map premium_or_zero
                  (filter (\<lambda>r. underlying_ticker r = Some (Ticker row)
                              \<and> map_option str_upper (option_type r) = Some ''CALL'')
                     (rows (h ! a))))
          \<and> Total_Put_Vol_Prem row
              = sum_list (map premium_or_zero
                  (filter (\<lambda>r. underlying_ticker r = Some (Ticker row)
                              \<and> map_option str_upper (option_type r) = Some ''PUT'')
                     (rows (h ! a)))))"
proof -
  from assms(1) obtain h' w' where
    res: "analyze_ticker_dashboard yf qs h a start w = (Inr tbl, h', w')"
    by (cases "analyze_ticker_dashboard yf qs h a start w") auto
  from analyze_row_sums[OF res assms(2)] show ?thesis .
qed

lemma create_frame_missing_ticker:
  "fst (create_expiration_summary_table [frame_missing_ticker] 0 0)
     = [\<lparr>Expiration_Date = 0, Days_to_Expiry = 0, Total_Premium = 800,
         Unique_Tickers = 1, Call_Premium = 300, Put_Premium = 500, Bullish_Premium = 300,
         Bearish_Premium = 0, Options_Count = 1\<rparr>]"
  by code_simp

lemma create_frame_padded:
  "fst (create_expiration_summary_table [frame_padded] 0 0)
     = [\<lparr>Expiration_Date = 0, Days_to_Expiry = 0, Total_Premium = 100,
         Unique_Tickers = 1, Call_Premium = 0, Put_Premium = 0, Bullish_Premium = 0,
         Bearish_Premium = 0, Options_Count = 1\<rparr>]"
  by code_simp

lemma create_frame_expirations:
  "map (\<lambda>g. (Total_Premium g, Options_Count g, Bullish_Premium g, Bearish_Premium g))
        (fst (create_expiration_summary_table [frame_expirations] 0 0))
       = [(700, 2, 0, 200), (1000, 1, 1000, 0)]"
  by code_simp

lemma analyze_frame_padded:
  "fst (analyze_ticker_dashboard provider_down stable_argsort [frame_padded] 0 0 [])
   = Inr [\<lparr>Ticker = ''NVDA'', Market_Cap = None, Current_Price = None,
          Price_at_Period_Start = NaN, Price_Change_Pct = NaN,
          Total_Activity_Prem = 100, Total_Call_Vol_Prem = 0, Total_Put_Vol_Prem = 0,
          Bullish_Prem = 100, Bearish_Prem = 0, Bullish_MCap_Score = 0, Bearish_MCap_Score = 0\<rparr>]"
  by code_simp

lemma frame_padded_columns:
  "''premium_usd'' \<in> set (columns ([frame_padded] ! 0))"
  "''sentiment'' \<in> set (columns ([frame_padded] ! 0))"
  "''option_type'' \<in> set (columns ([frame_padded] ! 0))"
  by code_simp+

text \<open>
  C9, as the claim states it, fails twice. The one trade of \<open>frame_padded\<close> has the option
  type \<^verbatim>\<open>'CALL '\<close> and the sentiment \<^verbatim>\<open>bullish\<close> written between white space: the
  analysis counts it as bullish premium (the sentiment is trimmed and put in upper case)
  but not as call premium (the option type is put in upper case, not trimmed). The second
  trade of \<open>frame_missing_ticker\<close> has the sentiment \<^verbatim>\<open>'BULLISH'\<close> and no ticker: the
  expiration summary adds its 500 to the total of the group and to no sentiment split,
  and counts one record for the two of the group.
\<close>

theorem padded_option_type_counterexample:
  "fst (analyze_ticker_dashboard provider_down stable_argsort [frame_padded] 0 0 [])
   = Inr [\<lparr>Ticker = ''NVDA'', Market_Cap = None, Current_Price = None,
          Price_at_Period_Start = NaN, Price_Change_Pct = NaN,
          Total_Activity_Prem = 100, Total_Call_Vol_Prem = 0, Total_Put_Vol_Prem = 0,
          Bullish_Prem = 100, Bearish_Prem = 0, Bullish_MCap_Score = 0, Bearish_MCap_Score = 0\<rparr>]
   \<and> map sentiment (rows frame_missing_ticker) = [Some ''Bullish'', Some ''BULLISH'']
   \<and> map underlying_ticker (rows frame_missing_ticker) = [Some ''NVDA'', None]
   \<and> fst (create_expiration_summary_table [frame_missing_ticker] 0 0)
       = [\<lparr>Expiration_Date = 0, Days_to_Expiry = 0, Total_Premium = 800,
           Unique_Tickers = 1, Call_Premium = 300, Put_Premium = 500, Bullish_Premium = 300,
           Bearish_Premium = 0, Options_Count = 1\<rparr>]"
  by code_simp

text \<open>
  C9, amended. In every row of the expiration summary, whatever the frame, the total
  premium sums the records of that expiration date; the call, put, bullish and bearish
  premium sum those among them whose option type or sentiment is exactly \<^verbatim>\<open>'CALL'\<close>,
  \<^verbatim>\<open>'PUT'\<close>, \<^verbatim>\<open>'Bullish'\<close>, \<^verbatim>\<open>'Bearish'\<close>; the count is the number of records of that
  date with a premium and a ticker. In every row of the analysis, when it returns one,
  the bullish and bearish premium sum the records of the row's ticker whose sentiment,
  trimmed and in upper case (a missing one read as \<^verbatim>\<open>UNKNOWN\<close>), is \<^verbatim>\<open>BULLISH\<close> or
  \<^verbatim>\<open>BEARISH\<close>; the call and put premium sum those whose option type in upper case, not
  trimmed, is \<^verbatim>\<open>CALL\<close> or \<^verbatim>\<open>PUT\<close>.
\<close>

theorem splits_match_exact_strings:
  "(\<forall>g \<in> set (fst (create_expiration_summary_table h a today)).
       Total_Premium g
           = sum_list (map premium_or_zero
               (filter (\<lambda>r. expiration_date r = Timestamp (Expiration_Date g)) (rows (h ! a))))
       \<and> Options_Count g
           = length (filter (\<lambda>r. expiration_date r = Timestamp (Expiration_Date g)
                                \<and> premium_usd r \<noteq> None \<and> underlying_ticker r \<noteq> None)
                       (rows (h ! a)))
       \<and> Call_Premium g
           = sum_list (map premium_or_zero
               (filter (\<lambda>r. expiration_date r = Timestamp (Expiration_Date g)
                           \<and> option_type r = Some ''CALL'') (rows (h ! a))))
       \<and> Put_Premium g
           = sum_list (map premium_or_zero
               (filter (\<lambda>r. expiration_date r = Timestamp (Expiration_Date g)
                           \<and> option_type r = Some ''PUT'') (rows (h ! a))))
       \<and> Bullish_Premium g
           = sum_list (map premium_or_zero
               (filter (\<lambda>r. expiration_date r = Timestamp (Expiration_Date g)
                           \<and> sentiment r = Some ''Bullish'') (rows (h ! a))))
       \<and> Bearish_Premium g
           = sum_list (map premium_or_zero
               (filter (\<lambda>r. expiration_date r = Timestamp (Expiration_Date g)
                           \<and> sentiment r = Some ''Bearish'') (rows (h ! a)))))
   \<and> (\<forall>tbl. fst (analyze_ticker_dashboard yf qs h a start w) = Inr tbl \<longrightarrow>
        (\<forall>row \<in> set tbl.
           (''premium_usd'' \<in> set (columns (h ! a)) \<longrightarrow>
              Total_Activity_Prem row
                = sum_list (map premium_or_zero
                    (filter (\<lambda>r. underlying_ticker r = Some (Ticker row)) (rows (h ! a)))))
         \<and> (''premium_usd'' \<in> set (columns (h ! a)) \<and> ''sentiment'' \<in> set (columns (h ! a)) \<longrightarrow>
              Bullish_Prem row
                = sum_list (map premium_or_zero
                    (filter (\<lambda>r. underlying_ticker r = Some (Ticker row)
                                \<and> str_upper (str_strip (case sentiment r of
                                                           None \<Rightarrow> ''UNKNOWN'' | Some s \<Rightarrow> s))
                                    = ''BULLISH'')
                       (rows (h ! a))))
            \<and> Bearish_Prem row
                = sum_list (map premium_or_zero
                    (filter (\<lambda>r. underlying_ticker r = Some (Ticker row)
                                \<and> str_upper (str_strip (case sentiment r of
                                                           None \<Rightarrow> ''UNKNOWN'' | Some s \<Rightarrow> s))
                                    = ''BEARISH'')
                       (rows (h ! a)))))
         \<and> (''premium_usd'' \<in> set (columns (h ! a)) \<and> ''option_type'' \<in> set (columns (h ! a)) \<longrightarrow>
              Total_Call_Vol_Prem row
                = sum_list (map premium_or_zero
                    (filter (\<lambda>r. underlying_ticker r = Some (Ticker row)
                                \<and> map_option str_upper (option_type r) = Some ''CALL'')
                       (rows (h ! a))))
            \<and> Total_Put_Vol_Prem row
                = sum_list (map premium_or_zero
                    (filter (\<lambda>r. underlying_ticker r = Some (Ticker row)
                                \<and> map_option str_upper (option_type r) = Some ''PUT'')
                       (rows (h ! a)))))))"
  by (rule conjI, rule ballI, erule summary_explicit,
      intro allI impI ballI, erule (1) analyze_row_sums_fst)


theorem splits_match_exact_strings_witness:
  "fst (create_expiration_summary_table [frame_missing_ticker] 0 0)
     = [\<lparr>Expiration_Date = 0, Days_to_Expiry = 0, Total_Premium = 800,
         Unique_Tickers = 1, Call_Premium = 300, Put_Premium = 500, Bullish_Premium = 300,
         Bearish_Premium = 0, Options_Count = 1\<rparr>]
   \<and> length (filter (\<lambda>r. expiration_date r = Timestamp 0 \<and> premium_usd r \<noteq> None
                         \<and> underlying_ticker r \<noteq> None)
               (rows ([frame_missing_ticker] ! 0))) = 1
   \<and> sum_list (map premium_or_zero
        (filter (\<lambda>r. expiration_date r = Timestamp 0 \<and> sentiment r = Some ''Bullish'')
           (rows ([frame_missing_ticker] ! 0)))) = 300
   \<and> sum_list (map premium_or_zero
        (filter (\<lambda>r. expiration_date r = Timestamp 0 \<and> option_type r = Some ''PUT'')
           (rows ([frame_missing_ticker] ! 0)))) = 500
   \<and> ''premium_usd'' \<in> set (columns ([frame_padded] ! 0))
   \<and> ''sentiment'' \<in> set (columns ([frame_padded] ! 0))
   \<and> ''option_type'' \<in> set (columns ([frame_padded] ! 0))
   \<and> map (\<lambda>row. (Ticker row, Total_Activity_Prem row, Total_Call_Vol_Prem row,
                  Total_Put_Vol_Prem row, Bullish_Prem row, Bearish_Prem row))
        (projr (fst (analyze_ticker_dashboard provider_down stable_argsort [frame_padded] 0 0 [])))
       = [(''NVDA'', 100, 0, 0, 100, 0)]
   \<and> sum_list (map premium_or_zero
        (filter (\<lambda>r. underlying_ticker r = Some ''NVDA''
                    \<and> str_upper (str_strip (case sentiment r of
                                               None \<Rightarrow> ''UNKNOWN'' | Some s \<Rightarrow> s)) = ''BULLISH'')
           (rows ([frame_padded] ! 0)))) = 100
   \<and> sum_list (map premium_or_zero
        (filter (\<lambda>r. underlying_ticker r = Some ''NVDA''
                    \<and> map_option str_upper (option_type r) = Some ''CALL'')
           (rows ([frame_padded] ! 0)))) = 0
   \<and> map (\<lambda>g. (Total_Premium g, Options_Count g, Call_Premium g, Put_Premium g,
                Bullish_Premium g, Bearish_Premium g))
        (fst (create_expiration_summary_table [frame_padded] 0 0)) = [(100, 1, 0, 0, 0, 0)]
   \<and> map (\<lambda>g. (Total_Premium g, Options_Count g, Bullish_Premium g, Bearish_Premium g))
        (fst (create_expiration_summary_table [frame_expirations] 0 0))
       = [(700, 2, 0, 200), (1000, 1, 1000, 0)]"
proof -
  have e: "length (filter (\<lambda>r. expiration_date r = Timestamp 0 \<and> premium_usd r \<noteq> None
                         \<and> underlying_ticker r \<noteq> None)
               (rows ([frame_missing_ticker] ! 0))) = 1"
    "sum_list (map premium_or_zero
        (filter (\<lambda>r. expiration_date r = Timestamp 0 \<and> sentiment r = Some ''Bullish'')
           (rows ([frame_missing_ticker] ! 0)))) = 300"
    "sum_list (map premium_or_zero
        (filter (\<lambda>r. expiration_date r = Timestamp 0 \<and> option_type r = Some ''PUT'')
           (rows ([frame_missing_ticker] ! 0)))) = 500"
    using conjunct1[OF splits_match_exact_strings
            [of "[frame_missing_ticker]" 0 0 provider_down stable_argsort 0 "[]"]]
    by (simp_all add: create_frame_missing_ticker del: not_None_eq)
  have r: "sum_list (map premium_or_zero
        (filter (\<lambda>r. underlying_ticker r = Some ''NVDA''
                    \<and> str_upper (str_strip (case sentiment r of
                                               None \<Rightarrow> ''UNKNOWN'' | Some s \<Rightarrow> s)) = ''BULLISH'')
           (rows ([frame_padded] ! 0)))) = 100"
    "sum_list (map premium_or_zero
        (filter (\<lambda>r. underlying_ticker r = Some ''NVDA''
                    \<and> map_option str_upper (option_type r) = Some ''CALL'')
           (rows ([frame_padded] ! 0)))) = 0"
    using conjunct2[OF splits_match_exact_strings
            [of "[frame_padded]" 0 0 provider_down stable_argsort 0 "[]"]]
      frame_padded_columns
    by (simp_all add: analyze_frame_padded)
  have t: "map (\<lambda>row. (Ticker row, Total_Activity_Prem row, Total_Call_Vol_Prem row,
                  Total_Put_Vol_Prem row, Bullish_Prem row, Bearish_Prem row))
        (projr (fst (analyze_ticker_dashboard provider_down stable_argsort [frame_padded] 0 0 [])))
       = [(''NVDA'', 100, 0, 0, 100, 0)]"
    by (simp add: analyze_frame_padded)
  have p: "map (\<lambda>g. (Total_Premium g, Options_Count g, Call_Premium g, Put_Premium g,
                Bullish_Premium g, Bearish_Premium g))
        (fst (create_expiration_summary_table [frame_padded] 0 0)) = [(100, 1, 0, 0, 0, 0)]"
    by (simp add: create_frame_padded)
  from create_frame_missing_ticker e frame_padded_columns t r p create_frame_expirations
  show ?thesis by blast
qed

subsection \<open>The date range of the query\<close>

lemma set_range_query:
  "set (range_query tbl s e)
     = {r \<in> set tbl. \<exists>d. data_date r = Some d \<and> s \<le> d \<and> d \<le> e}"
  by (auto simp: range_query_def split: option.splits)

text \<open>
  C8. For a range with \<open>start_date \<le> end_date\<close>, a store that answers and a table with
  the columns the routine names, a record dated exactly on the start or on the end of the
  range is in the returned frame (normalised, as every returned record is); the returned
  records are exactly those dated within the two bounds, both included.
\<close>

theorem date_range_inclusive:
  assumes "start_date \<le> end_date"
      and "store = Returned options_activity"
      and "list_all (\<lambda>c. c \<in> set (columns options_activity))
             [''data_date'', ''underlying_ticker'', ''expiration_date'', ''premium_usd'']"
      and "r \<in> set (rows options_activity)"
      and "data_date r = Some start_date \<or> data_date r = Some end_date"
  shows "normalize_row r
           \<in> set (rows (fetch_options_activity_for_range store start_date end_date))
         \<and> set (rows (fetch_options_activity_for_range store start_date end_date))
             = normalize_row ` {r \<in> set (rows options_activity).
                                 \<exists>d. data_date r = Some d \<and> start_date \<le> d \<and> d \<le> end_date}"
proof -
  let ?q = "range_query (rows options_activity) start_date end_date"
  from assms(1,4,5) have rin: "r \<in> set ?q" by (auto simp: set_range_query)
  then have ne: "?q \<noteq> []" by auto
  from assms(3) have cols: "columns options_activity \<noteq> []" by auto
  from assms(2,3) ne cols
  have rows: "rows (fetch_options_activity_for_range store start_date end_date)
                = map normalize_row ?q"
    by (simp add: fetch_options_activity_for_range_def frame_empty_def Let_def)
  from rin have "normalize_row r \<in> set (map normalize_row ?q)" by simp
  with rows show ?thesis by (simp add: set_range_query)
qed

lemma fetch_table_three_days:
  "map data_date (rows (fetch_options_activity_for_range (Returned table_three_days) 3 5))
     = [Some 3, Some 5]"
  by code_simp

theorem date_range_inclusive_witness:
  "(3::int) \<le> 5
   \<and> list_all (\<lambda>c. c \<in> set (columns table_three_days))
        [''data_date'', ''underlying_ticker'', ''expiration_date'', ''premium_usd'']
   \<and> normalize_row (mk_trade 5 ''NVDA'' (Timestamp 0) ''CALL'' ''Bullish'' (Some 1000) None)
       \<in> set (rows (fetch_options_activity_for_range (Returned table_three_days) 3 5))
   \<and> normalize_row (mk_trade 3 ''AAPL'' Unparseable ''PUT'' ''Bearish'' None None)
       \<in> set (rows (fetch_options_activity_for_range (Returned table_three_days) 3 5))
   \<and> map data_date (rows (fetch_options_activity_for_range (Returned table_three_days) 3 5))
       = [Some 3, Some 5]"
proof -
  have le: "(3::int) \<le> 5" by simp
  have cols: "list_all (\<lambda>c. c \<in> set (columns table_three_days))
        [''data_date'', ''underlying_ticker'', ''expiration_date'', ''premium_usd'']"
    by code_simp
  have r5: "mk_trade 5 ''NVDA'' (Timestamp 0) ''CALL'' ''Bullish'' (Some 1000) None
              \<in> set (rows table_three_days)"
    by (simp add: table_three_days_def)
  have r3: "mk_trade 3 ''AAPL'' Unparseable ''PUT'' ''Bearish'' None None
              \<in> set (rows table_three_days)"
    by (simp add: table_three_days_def)
  have d5: "data_date (mk_trade 5 ''NVDA'' (Timestamp 0) ''CALL'' ''Bullish'' (Some 1000) None)
              = Some 3
            \<or> data_date (mk_trade 5 ''NVDA'' (Timestamp 0) ''CALL'' ''Bullish'' (Some 1000) None)
              = Some 5"
    by (simp add: mk_trade_def)
  have d3: "data_date (mk_trade 3 ''AAPL'' Unparseable ''PUT'' ''Bearish'' None None) = Some 3
            \<or> data_date (mk_trade 3 ''AAPL'' Unparseable ''PUT'' ''Bearish'' None None) = Some 5"
    by (simp add: mk_trade_def)
  from date_range_inclusive[OF le refl cols r5 d5] date_range_inclusive[OF le refl cols r3 d3]
    le cols fetch_table_three_days
  show ?thesis by blast
qed

end
